theory Spec2Isabelle
  imports Complex_Main
begin

section \<open>Values, exceptions and arrays\<close>

text \<open>
  The module \<^verbatim>\<open>afqinsight/cnn.py\<close> is glue around numpy, scikit-learn, keras and
  keras-tuner. The embedding follows the module function by function. Calls into numpy and
  scikit-learn that decide what the module's own code does (boolean-mask indexing,
  \<^verbatim>\<open>reshape\<close>, \<^verbatim>\<open>swapaxes\<close>, \<^verbatim>\<open>SimpleImputer\<close>, \<^verbatim>\<open>check_X_y\<close>, \<^verbatim>\<open>check_is_fitted\<close>,
  the input validation of \<^verbatim>\<open>r2_score\<close>) are written out after their documented behaviour;
  the deep-learning framework, the tuning library and \<^verbatim>\<open>train_test_split\<close> are parameters
  of the model (record \<open>framework\<close> below).

  A Python float is a finite real or NaN: \<open>None\<close> is NaN. Arithmetic on the finite values
  is exact; rounding is not part of the model.
\<close>

type_synonym pyfloat = "real option"

datatype exn =
    ImportError | TypeError | ValueError | IndexError | AxisError | AttributeError
  | NotFittedError

datatype error = Raise exn string

text \<open>Sequencing of fallible steps: the first exception raised ends the computation.\<close>

definition and_then :: "error + 'a \<Rightarrow> ('a \<Rightarrow> error + 'b) \<Rightarrow> error + 'b" where
  "and_then m f = (case m of Inl e \<Rightarrow> Inl e | Inr x \<Rightarrow> f x)"

text \<open>The arguments a caller may pass where the constructor checks types at run time.\<close>

datatype pyval = PyNone | PyBool bool | PyInt int | PyFloat pyfloat | PyStr string

text \<open>
  A value for which \<^verbatim>\<open>isinstance(v, int)\<close> holds: an \<^verbatim>\<open>int\<close>, or a \<^verbatim>\<open>bool\<close>, which is
  a subclass of \<^verbatim>\<open>int\<close>. The value keeps which of the two it is: arithmetic reads a bool
  as 0 or 1, and numpy refuses a bool where it expects a dimension.
\<close>

datatype pyint = IntVal int | BoolVal bool

fun int_of :: "pyint \<Rightarrow> int" where
  "int_of (IntVal n) = n"
| "int_of (BoolVal b) = (if b then 1 else 0)"

fun is_bool :: "pyint \<Rightarrow> bool" where
  "is_bool (IntVal n) = False"
| "is_bool (BoolVal b) = True"

text \<open>
  A numpy array in C order: its shape and its elements in row-major order. An array is
  well formed when the number of elements is the product of the shape.
\<close>

record 'a ndarray =
  shape :: "nat list"
  items :: "'a list"

definition wf_array :: "'a ndarray \<Rightarrow> bool" where
  "wf_array A \<longleftrightarrow> length (items A) = prod_list (shape A)"

definition at2 :: "'a ndarray \<Rightarrow> nat \<Rightarrow> nat \<Rightarrow> 'a" where
  \<comment> \<open>\<^verbatim>\<open>A[i, j]\<close> of a 2-D array, for indices in range\<close>
  "at2 A i j = items A ! (i * (shape A ! 1) + j)"

definition at3 :: "'a ndarray \<Rightarrow> nat \<Rightarrow> nat \<Rightarrow> nat \<Rightarrow> 'a" where
  \<comment> \<open>\<^verbatim>\<open>A[i, j, k]\<close> of a 3-D array, for indices in range\<close>
  "at3 A i j k = items A ! ((i * (shape A ! 1) + j) * (shape A ! 2) + k)"

definition column :: "'a ndarray \<Rightarrow> nat \<Rightarrow> 'a list" where
  \<comment> \<open>\<^verbatim>\<open>A[:, j]\<close> of a 2-D array\<close>
  "column A j = map (\<lambda>i. at2 A i j) [0..<shape A ! 0]"

subsection \<open>numpy\<close>

definition isnan :: "pyfloat \<Rightarrow> bool" where
  "isnan v \<longleftrightarrow> v = None"

definition not_nan_mask :: "pyfloat list \<Rightarrow> bool list" where
  \<comment> \<open>\<^verbatim>\<open>np.logical_not(np.isnan(y))\<close>\<close>
  "not_nan_mask y = map (\<lambda>v. \<not> isnan v) y"

definition mask_select :: "bool list \<Rightarrow> 'a list \<Rightarrow> 'a list" where
  \<comment> \<open>\<^verbatim>\<open>y[mask]\<close> for a 1-D \<^verbatim>\<open>y\<close> and a mask of the same length\<close>
  "mask_select msk y = map snd (filter fst (zip msk y))"

definition kept_rows :: "bool list \<Rightarrow> nat list" where
  "kept_rows msk = filter (\<lambda>i. msk ! i) [0..<length msk]"

definition take_rows :: "bool list \<Rightarrow> 'a ndarray \<Rightarrow> error + 'a ndarray" where
  \<comment> \<open>\<^verbatim>\<open>X[mask, :]\<close>: a boolean mask on axis 0 and a full slice on axis 1. numpy raises
      IndexError when the array has fewer than two axes or the mask's length is not the
      length of axis 0.\<close>
  "take_rows msk X =
     (case shape X of
        [] \<Rightarrow> Inl (Raise IndexError ''too many indices for array'')
      | [r] \<Rightarrow> Inl (Raise IndexError ''too many indices for array'')
      | r # rest \<Rightarrow>
          if length msk \<noteq> r
          then Inl (Raise IndexError ''boolean index did not match indexed array along axis 0'')
          else let b = prod_list rest
               in Inr \<lparr>shape = length (kept_rows msk) # rest,
                       items = concat (map (\<lambda>i. take b (drop (i * b) (items X)))
                                           (kept_rows msk))\<rparr>)"

definition cannot_reshape :: error where
  "cannot_reshape = Raise ValueError ''cannot reshape array into the requested shape''"

definition unknown_dimension :: error where
  "unknown_dimension = Raise ValueError ''can only specify one unknown dimension''"

definition not_an_integer :: error where
  "not_an_integer = Raise TypeError ''bool object cannot be interpreted as an integer''"

definition np_reshape :: "'a ndarray \<Rightarrow> pyint list \<Rightarrow> error + 'a ndarray" where
  \<comment> \<open>\<^verbatim>\<open>A.reshape(newshape)\<close>. The entries of \<^verbatim>\<open>newshape\<close> are converted to integers first,
      and a bool among them raises TypeError. A negative entry is the one unknown dimension,
      inferred from the size; two of them, a size that the known dimensions do not divide,
      or a product other than the size raise ValueError.\<close>
  "np_reshape A newshape =
     (if \<exists>d \<in> set newshape. is_bool d then Inl not_an_integer
      else
        let dims = map int_of newshape;
            known = filter (\<lambda>d. 0 \<le> d) dims;
            s_known = prod_list (map nat known);
            s_original = length (items A)
        in if length dims - length known > 1 then Inl unknown_dimension
           else if length dims - length known = 1
           then (if s_known = 0 \<or> s_original mod s_known \<noteq> 0 then Inl cannot_reshape
                 else Inr \<lparr>shape = map (\<lambda>d. if d < 0 then s_original div s_known else nat d)
                                        dims,
                          items = items A\<rparr>)
           else if s_original \<noteq> s_known then Inl cannot_reshape
           else Inr \<lparr>shape = map nat dims, items = items A\<rparr>)"

definition swapaxes_1_2 :: "'a ndarray \<Rightarrow> error + 'a ndarray" where
  \<comment> \<open>\<^verbatim>\<open>np.swapaxes(A, 1, 2)\<close>: AxisError when \<^verbatim>\<open>A\<close> has fewer than three axes; otherwise
      the array whose element at \<^verbatim>\<open>[i, j, k, ...]\<close> is \<^verbatim>\<open>A[i, k, j, ...]\<close>.\<close>
  "swapaxes_1_2 A =
     (case shape A of
        d0 # d1 # d2 # rest \<Rightarrow>
          let b = prod_list rest
          in Inr \<lparr>shape = d0 # d2 # d1 # rest,
                  items = concat (map (\<lambda>i. concat (map (\<lambda>j. concat (map (\<lambda>k.
                            take b (drop (((i * d1 + k) * d2 + j) * b) (items A)))
                            [0..<d1])) [0..<d2])) [0..<d0])\<rparr>
      | _ \<Rightarrow> Inl (Raise AxisError ''axis is out of bounds for array''))"

definition squeeze :: "'a ndarray \<Rightarrow> 'a ndarray" where
  \<comment> \<open>\<^verbatim>\<open>A.squeeze()\<close> removes the axes of length one\<close>
  "squeeze A = A\<lparr>shape := filter (\<lambda>d. d \<noteq> 1) (shape A)\<rparr>"

subsection \<open>scikit-learn\<close>

definition mean_of :: "real list \<Rightarrow> real" where
  "mean_of xs = sum_list xs / real (length xs)"

definition median_of :: "real list \<Rightarrow> real" where
  "median_of xs =
     (let s = sort xs; n = length s
      in if odd n then s ! (n div 2) else (s ! (n div 2 - 1) + s ! (n div 2)) / 2)"

definition most_frequent :: "real list \<Rightarrow> real option" where
  \<comment> \<open>the smallest among the most frequent values\<close>
  "most_frequent xs =
     (let s = sort (remdups xs);
          best = fold max (map (count_list xs) s) 0
      in find (\<lambda>v. count_list xs v = best) s)"

definition observed :: "pyfloat list \<Rightarrow> real list" where
  "observed col = concat (map (\<lambda>v. case v of None \<Rightarrow> [] | Some x \<Rightarrow> [x]) col)"

definition statistic :: "string \<Rightarrow> pyfloat list \<Rightarrow> pyfloat" where
  \<comment> \<open>the fill value \<^verbatim>\<open>SimpleImputer\<close> learns for one column: computed from the observed
      entries, NaN when the column has none (strategy \<^verbatim>\<open>constant\<close> fills with 0)\<close>
  "statistic strat col =
     (if strat = ''constant'' then Some 0
      else if observed col = [] then None
      else if strat = ''mean'' then Some (mean_of (observed col))
      else if strat = ''median'' then Some (median_of (observed col))
      else most_frequent (observed col))"

definition SimpleImputer_fit :: "string \<Rightarrow> pyfloat ndarray \<Rightarrow> error + pyfloat list" where
  \<comment> \<open>\<^verbatim>\<open>SimpleImputer(strategy=strat).fit(X)\<close>, returning the fitted \<^verbatim>\<open>statistics_\<close>.
      The strategy is validated first, then the input: 2-D, at least one sample and one
      feature.\<close>
  "SimpleImputer_fit strat X =
     (if strat \<notin> set [''mean'', ''median'', ''most_frequent'', ''constant'']
      then Inl (Raise ValueError ''The strategy parameter of SimpleImputer is invalid'')
      else case shape X of
             [r, c] \<Rightarrow>
               if r = 0 then Inl (Raise ValueError ''Found array with 0 sample(s)'')
               else if c = 0 then Inl (Raise ValueError ''Found array with 0 feature(s)'')
               else Inr (map (\<lambda>j. statistic strat (column X j)) [0..<c])
           | _ \<Rightarrow> Inl (Raise ValueError ''Expected 2D array''))"

definition SimpleImputer_transform ::
  "pyfloat list \<Rightarrow> pyfloat ndarray \<Rightarrow> error + pyfloat ndarray" where
  \<comment> \<open>\<^verbatim>\<open>imp.transform(X)\<close> for an imputer with the given \<^verbatim>\<open>statistics_\<close>: a column whose
      statistic is NaN (no observed value at fit) is discarded, and each missing entry of
      the other columns is replaced by its column's statistic.\<close>
  "SimpleImputer_transform stats X =
     (case shape X of
        [r, c] \<Rightarrow>
          if r = 0 then Inl (Raise ValueError ''Found array with 0 sample(s)'')
          else if c = 0 then Inl (Raise ValueError ''Found array with 0 feature(s)'')
          else if c \<noteq> length stats
          then Inl (Raise ValueError ''X has a different number of features than the imputer'')
          else let valid = filter (\<lambda>j. \<not> isnan (stats ! j)) [0..<c]
               in Inr \<lparr>shape = [r, length valid],
                       items = concat (map (\<lambda>i. map (\<lambda>j.
                                 case at2 X i j of None \<Rightarrow> stats ! j | Some v \<Rightarrow> Some v)
                                 valid) [0..<r])\<rparr>
      | _ \<Rightarrow> Inl (Raise ValueError ''Expected 2D array''))"

definition check_X_y ::
  "pyfloat ndarray \<Rightarrow> pyfloat list \<Rightarrow> error + (pyfloat ndarray \<times> pyfloat list)" where
  \<comment> \<open>\<^verbatim>\<open>sklearn.utils.validation.check_X_y\<close> with its defaults: \<^verbatim>\<open>X\<close> is 2-D, finite and
      has at least one sample and one feature, \<^verbatim>\<open>y\<close> has no NaN, and both have the same
      number of samples.\<close>
  "check_X_y X y =
     (case shape X of
        [r, c] \<Rightarrow>
          if \<exists>v \<in> set (items X). isnan v then Inl (Raise ValueError ''Input X contains NaN'')
          else if r = 0 then Inl (Raise ValueError ''Found array with 0 sample(s)'')
          else if c = 0 then Inl (Raise ValueError ''Found array with 0 feature(s)'')
          else if \<exists>v \<in> set y. isnan v then Inl (Raise ValueError ''Input y contains NaN'')
          else if length y \<noteq> r
          then Inl (Raise ValueError
                 ''Found input variables with inconsistent numbers of samples'')
          else Inr (X, y)
      | _ \<Rightarrow> Inl (Raise ValueError ''Expected 2D array''))"

definition r2_score :: "pyfloat list \<Rightarrow> pyfloat list \<Rightarrow> error + pyfloat" where
  \<comment> \<open>\<^verbatim>\<open>sklearn.metrics.r2_score(y_true, y_pred)\<close> on 1-D inputs: the lengths are compared
      first, then both inputs must be free of NaN; with fewer than two samples the score is
      undefined (NaN); a constant \<^verbatim>\<open>y_true\<close> scores 1 for a perfect prediction and 0
      otherwise.\<close>
  "r2_score y_true y_pred =
     (if length y_true \<noteq> length y_pred
      then Inl (Raise ValueError
             ''Found input variables with inconsistent numbers of samples'')
      else if (\<exists>v \<in> set y_true. isnan v) \<or> (\<exists>v \<in> set y_pred. isnan v)
      then Inl (Raise ValueError ''Input contains NaN'')
      else if length y_true < 2 then Inr None
      else let t = observed y_true; p = observed y_pred;
               numerator = sum_list (map (\<lambda>(a, b). (a - b)\<^sup>2) (zip t p));
               denominator = sum_list (map (\<lambda>a. (a - mean_of t)\<^sup>2) t)
           in if denominator \<noteq> 0 then Inr (Some (1 - numerator / denominator))
              else if numerator = 0 then Inr (Some 1)
              else Inr (Some 0))"

section \<open>The module\<close>

text \<open>
  Exception messages are the module's own, written without their inner quotation marks.
\<close>

subsection \<open>The external frameworks\<close>

datatype layer =
    Dense nat string
  | Conv1D nat nat string
  | MaxPool1D nat string
  | Dropout real
  | Flatten

datatype tuner_class = Hyperband | BayesianOptimization | RandomSearch

text \<open>
  A tuner object of the tuning library, as \<^verbatim>\<open>_get_tuner\<close> constructs it. The hypermodel
  \<^verbatim>\<open>functools.partial(build_model, conv_layers=..., input_shape=...)\<close> is the pair of
  its two bound arguments; \<open>budget\<close> is \<^verbatim>\<open>max_epochs\<close> for Hyperband and \<^verbatim>\<open>max_trials\<close>
  for the other two.
\<close>

record tuner_obj =
  tuner_class :: tuner_class
  hypermodel :: "pyint \<times> nat list"
  objective :: string
  budget :: int
  overwrite :: bool
  tuner_project_name :: pyval
  tuner_directory :: pyval
  tuner_options :: "(string \<times> pyval) list"

text \<open>
  What the module calls and does not define: \<open>'m\<close> is a keras model, \<open>'hp\<close> a set of
  hyperparameters. \<open>sequential_compile\<close> is \<^verbatim>\<open>Sequential()\<close>, the \<^verbatim>\<open>add\<close> calls and
  \<^verbatim>\<open>compile\<close>; \<open>fit_with_checkpoint\<close> is \<^verbatim>\<open>model.fit\<close> with the \<^verbatim>\<open>ModelCheckpoint\<close>
  callback followed by \<^verbatim>\<open>load_weights\<close>; \<open>tuner_search\<close> is the library's constructor of
  the tuner, \<^verbatim>\<open>tuner.search\<close> and \<^verbatim>\<open>get_best_hyperparameters(num_trials=1)[0]\<close>.
\<close>

record ('m, 'hp) framework =
  HAS_KERAS :: bool
  train_test_split ::
    "pyfloat ndarray \<Rightarrow> pyfloat list \<Rightarrow> pyfloat \<Rightarrow> pyint \<Rightarrow>
     error + (pyfloat ndarray \<times> pyfloat ndarray \<times> pyfloat list \<times> pyfloat list)"
  sequential_compile :: "nat list \<Rightarrow> layer list \<Rightarrow> error + 'm"
  fit_with_checkpoint ::
    "'m \<Rightarrow> pyfloat ndarray \<Rightarrow> pyfloat list \<Rightarrow> pyint \<Rightarrow> pyint \<Rightarrow>
     pyfloat ndarray \<Rightarrow> pyfloat list \<Rightarrow> error + 'm"
  tuner_search :: "tuner_obj \<Rightarrow> pyfloat ndarray \<Rightarrow> pyfloat list \<Rightarrow> error + 'hp"
  hypermodel_build :: "tuner_obj \<Rightarrow> 'hp \<Rightarrow> error + 'm"
  model_predict :: "'m \<Rightarrow> pyfloat ndarray \<Rightarrow> error + pyfloat ndarray"

definition check_keras :: "bool \<Rightarrow> error + unit" where
  "check_keras has_keras =
     (if \<not> has_keras
      then Inl (Raise ImportError ''tensorflow, keras and kerastuner are not installed'')
      else Inr ())"

subsection \<open>ModelBuilder\<close>

record ModelBuilder =
  class_type :: pyval
  mb_input_shape :: "nat list"
  mb_layers :: pyint
  mb_max_epochs :: pyint
  X_test :: "pyfloat ndarray"
  y_test :: "pyfloat list"
  mb_batch_size :: pyint
  mb_directory :: pyval
  mb_project_name :: pyval
  mb_tuner_kwargs :: "(string \<times> pyval) list"

text \<open>
  Keyword arguments passed on with \<^verbatim>\<open>**\<close>: a keyword that names an argument the call
  also gives itself raises TypeError when the call is made.
\<close>

definition repeated_keyword :: "string list \<Rightarrow> (string \<times> pyval) list \<Rightarrow> bool" where
  "repeated_keyword names kwargs \<longleftrightarrow> (\<exists>k \<in> set (map fst kwargs). k \<in> set names)"

definition multiple_values :: error where
  "multiple_values = Raise TypeError ''got multiple values for an argument''"

definition ModelBuilder_params :: "string list" where
  \<comment> \<open>the parameters of \<^verbatim>\<open>ModelBuilder.__init__\<close> that \<^verbatim>\<open>fit\<close> gives by position\<close>
  "ModelBuilder_params =
     [''class_type'', ''input_shape'', ''layers'', ''max_epochs'', ''X_test'', ''y_test'',
      ''batch_size'', ''directory'', ''project_name'']"

definition ModelBuilder_init ::
  "bool \<Rightarrow> pyval \<Rightarrow> nat list \<Rightarrow> pyint \<Rightarrow> pyint \<Rightarrow> pyfloat ndarray \<Rightarrow> pyfloat list \<Rightarrow>
   pyint \<Rightarrow> pyval \<Rightarrow> pyval \<Rightarrow> (string \<times> pyval) list \<Rightarrow> error + ModelBuilder" where
  \<comment> \<open>the call \<^verbatim>\<open>ModelBuilder(class_type, ..., project_name, **tuner_kwargs)\<close> of \<^verbatim>\<open>fit\<close>\<close>
  "ModelBuilder_init has_keras ct ishape ls epochs Xt yt bs dir pname kwargs =
     (if repeated_keyword ModelBuilder_params kwargs then Inl multiple_values
      else
        and_then (check_keras has_keras) (\<lambda>_.
          Inr \<lparr>class_type = ct, mb_input_shape = ishape, mb_layers = ls,
               mb_max_epochs = epochs, X_test = Xt, y_test = yt, mb_batch_size = bs,
               mb_directory = dir, mb_project_name = pname, mb_tuner_kwargs = kwargs\<rparr>))"

definition tuner_error :: error where
  "tuner_error =
     Raise ValueError ''tuner parameter expects hyperband, bayesian, or random''"

definition tuner_keywords :: "tuner_class \<Rightarrow> string list" where
  \<comment> \<open>the keywords \<^verbatim>\<open>_get_tuner\<close> gives itself in the call of each tuner class\<close>
  "tuner_keywords cls =
     [''hypermodel'', ''objective'',
      if cls = Hyperband then ''max_epochs'' else ''max_trials'',
      ''overwrite'', ''project_name'', ''directory'']"

definition new_tuner :: "ModelBuilder \<Rightarrow> tuner_class \<Rightarrow> error + tuner_obj" where
  \<comment> \<open>one of the three constructor calls of \<^verbatim>\<open>_get_tuner\<close>, with
      \<^verbatim>\<open>**self.tuner_kwargs\<close> beside the keywords of the call\<close>
  "new_tuner self cls =
     (if repeated_keyword (tuner_keywords cls) (mb_tuner_kwargs self) then Inl multiple_values
      else Inr \<lparr>tuner_class = cls,
                hypermodel = (mb_layers self, mb_input_shape self),
                objective = ''mean_squared_error'',
                budget = 10,
                overwrite = True,
                tuner_project_name = mb_project_name self,
                tuner_directory = mb_directory self,
                tuner_options = mb_tuner_kwargs self\<rparr>)"

definition get_tuner :: "ModelBuilder \<Rightarrow> error + tuner_obj" where
  \<comment> \<open>\<^verbatim>\<open>ModelBuilder._get_tuner\<close>\<close>
  "get_tuner self =
     (case class_type self of
        PyStr s \<Rightarrow>
          if s = ''hyperband'' then new_tuner self Hyperband
          else if s = ''bayesian'' then new_tuner self BayesianOptimization
          else if s = ''random'' then new_tuner self RandomSearch
          else Inl tuner_error
      | _ \<Rightarrow> Inl (Raise TypeError []))"

definition get_best_weights ::
  "('m, 'hp) framework \<Rightarrow> ModelBuilder \<Rightarrow> 'm \<Rightarrow> pyfloat ndarray \<Rightarrow> pyfloat list \<Rightarrow> error + 'm"
  where
  \<comment> \<open>\<^verbatim>\<open>ModelBuilder._get_best_weights\<close>\<close>
  "get_best_weights env self model X y =
     fit_with_checkpoint env model X y (mb_max_epochs self) (mb_batch_size self)
       (X_test self) (y_test self)"

definition basic_layers :: "layer list" where
  "basic_layers =
     [Dense 128 ''relu'',
      Conv1D 24 2 ''relu'', MaxPool1D 2 ''same'',
      Conv1D 32 2 ''relu'', MaxPool1D 2 ''same'',
      Conv1D 64 3 ''relu'', MaxPool1D 2 ''same'',
      Conv1D 128 4 ''relu'', MaxPool1D 2 ''same'',
      Conv1D 256 4 ''relu'', MaxPool1D 2 ''same'',
      Dropout (25 / 100), Flatten,
      Dense 128 ''relu'', Dropout (25 / 100),
      Dense 64 ''relu'', Dense 1 ''linear'']"

definition build_basic_model ::
  "('m, 'hp) framework \<Rightarrow> ModelBuilder \<Rightarrow> pyfloat ndarray \<Rightarrow> pyfloat list \<Rightarrow> error + 'm" where
  "build_basic_model env self X y =
     and_then (sequential_compile env (tl (shape X)) basic_layers) (\<lambda>model.
       get_best_weights env self model X y)"

definition build_tuned_model ::
  "('m, 'hp) framework \<Rightarrow> ModelBuilder \<Rightarrow> pyfloat ndarray \<Rightarrow> pyfloat list \<Rightarrow> error + 'm" where
  "build_tuned_model env self X y =
     and_then (get_tuner self) (\<lambda>tuner.
     and_then (tuner_search env tuner X y) (\<lambda>best_hps.
     and_then (hypermodel_build env tuner best_hps) (\<lambda>model.
       get_best_weights env self model X y)))"

subsection \<open>CNN\<close>

text \<open>
  The attributes \<^verbatim>\<open>model_\<close>, \<^verbatim>\<open>best_hps_\<close> and \<^verbatim>\<open>is_fitted_\<close> are the fields
  \<open>cnn_model\<close>, \<open>cnn_best_hps\<close> and \<open>cnn_is_fitted\<close>. The attribute \<^verbatim>\<open>is_fitted_\<close>
  does not exist until \<^verbatim>\<open>fit\<close> sets it: \<open>None\<close> is the absent attribute.
\<close>

record 'm CNN =
  n_nodes :: pyint
  n_channels :: pyint
  layers :: pyint
  max_epochs :: pyint
  batch_size :: pyint
  tuner :: pyval
  test_size :: pyfloat
  strategy :: string
  random_state :: pyint
  directory :: pyval
  project_name :: pyval
  tuner_kwargs :: "(string \<times> pyval) list"
  cnn_model :: "'m option"
  cnn_best_hps :: pyval
  cnn_is_fitted :: "bool option"

text \<open>
  The arguments of a call of the constructor, each bound to its parameter;
  \<open>arg_tuner_kwargs\<close> holds the keywords that name no parameter of the constructor.
\<close>

record CNN_args =
  arg_n_nodes :: pyval
  arg_n_channels :: pyval
  arg_max_epochs :: pyval
  arg_batch_size :: pyval
  arg_tuner :: pyval
  arg_layers :: pyval
  arg_test_size :: pyval
  arg_strategy :: pyval
  arg_random_state :: pyval
  arg_directory :: pyval
  arg_project_name :: pyval
  arg_tuner_kwargs :: "(string \<times> pyval) list"

definition default_args :: "pyval \<Rightarrow> pyval \<Rightarrow> CNN_args" where
  \<comment> \<open>the two required arguments, and the defaults of the signature for the others\<close>
  "default_args nn nc =
     \<lparr>arg_n_nodes = nn, arg_n_channels = nc, arg_max_epochs = PyInt 50,
      arg_batch_size = PyInt 32, arg_tuner = PyNone, arg_layers = PyInt 1,
      arg_test_size = PyFloat (Some (2 / 10)), arg_strategy = PyStr ''median'',
      arg_random_state = PyInt 200, arg_directory = PyNone, arg_project_name = PyNone,
      arg_tuner_kwargs = []\<rparr>"

definition as_int :: "pyval \<Rightarrow> pyint option" where
  \<comment> \<open>\<^verbatim>\<open>isinstance(v, int)\<close>, with the value as it is stored: a bool stays a bool\<close>
  "as_int v =
     (case v of PyInt n \<Rightarrow> Some (IntVal n) | PyBool b \<Rightarrow> Some (BoolVal b) | _ \<Rightarrow> None)"

definition as_float :: "pyval \<Rightarrow> pyfloat option" where
  \<comment> \<open>\<^verbatim>\<open>isinstance(v, float)\<close>, with the value\<close>
  "as_float v = (case v of PyFloat x \<Rightarrow> Some x | _ \<Rightarrow> None)"

definition as_str :: "pyval \<Rightarrow> string option" where
  \<comment> \<open>\<^verbatim>\<open>isinstance(v, str)\<close>, with the value\<close>
  "as_str v = (case v of PyStr s \<Rightarrow> Some s | _ \<Rightarrow> None)"

definition CNN_init :: "bool \<Rightarrow> CNN_args \<Rightarrow> error + 'm CNN" where
  \<comment> \<open>\<^verbatim>\<open>CNN.__init__\<close>; the first argument is the module constant \<^verbatim>\<open>HAS_KERAS\<close>\<close>
  "CNN_init has_keras a =
     and_then (check_keras has_keras) (\<lambda>_.
     (case as_int (arg_n_nodes a) of
        None \<Rightarrow> Inl (Raise TypeError ''Parameter n_nodes must be an integer.'')
      | Some nn \<Rightarrow>
     (case as_int (arg_n_channels a) of
        None \<Rightarrow> Inl (Raise TypeError ''Parameter n_channels must be an integer.'')
      | Some nc \<Rightarrow>
     (case as_int (arg_layers a) of
        None \<Rightarrow> Inl (Raise TypeError ''Parameter layers must be an integer.'')
      | Some ls \<Rightarrow>
     (case as_int (arg_max_epochs a) of
        None \<Rightarrow> Inl (Raise TypeError ''Parameter max_epochs must be an integer.'')
      | Some me \<Rightarrow>
     (case as_int (arg_batch_size a) of
        None \<Rightarrow> Inl (Raise TypeError ''Parameter batch_size must be an integer.'')
      | Some bs \<Rightarrow>
     (if as_str (arg_tuner a) = None \<and> arg_tuner a \<noteq> PyNone
      then Inl (Raise TypeError ''Parameter tuner must be str.'')
      else
     (case as_float (arg_test_size a) of
        None \<Rightarrow> Inl (Raise TypeError ''Parameter test_size must be a float.'')
      | Some ts \<Rightarrow>
     (case as_str (arg_strategy a) of
        None \<Rightarrow> Inl (Raise TypeError ''Parameter strategy must be a string.'')
      | Some st \<Rightarrow>
     (if st \<notin> set [''median'', ''mean'', ''knn'']
      then Inl (Raise ValueError ''Parameter strategy must be median, mean, or knn.'')
      else
     (case as_int (arg_random_state a) of
        None \<Rightarrow> Inl (Raise TypeError ''Parameter random_state must be an int.'')
      | Some rs \<Rightarrow>
        Inr \<lparr>n_nodes = nn, n_channels = nc, layers = ls, max_epochs = me, batch_size = bs,
             tuner = arg_tuner a, test_size = ts, strategy = st, random_state = rs,
             directory = arg_directory a, project_name = arg_project_name a,
             tuner_kwargs = arg_tuner_kwargs a, cnn_model = None, cnn_best_hps = PyNone,
             cnn_is_fitted = None\<rparr>)))))))))))"

definition product_error :: error where
  "product_error =
     Raise ValueError ''The product n_nodes and n_channels is not the correct shape.''"

definition to_tensor :: "'m CNN \<Rightarrow> pyfloat ndarray \<Rightarrow> error + pyfloat ndarray" where
  \<comment> \<open>the last step of \<^verbatim>\<open>_preprocess\<close>:
      \<^verbatim>\<open>np.swapaxes(X.reshape((X.shape[0], self.n_channels, self.n_nodes)), 1, 2)\<close>\<close>
  "to_tensor self X =
     (case shape X of
        [] \<Rightarrow> Inl (Raise IndexError ''tuple index out of range'')
      | n_subjects # _ \<Rightarrow>
          and_then (np_reshape X [IntVal (int n_subjects), n_channels self, n_nodes self])
            swapaxes_1_2)"

definition preprocess ::
  "'m CNN \<Rightarrow> pyfloat ndarray \<Rightarrow> pyfloat list option \<Rightarrow>
   error + (pyfloat ndarray \<times> pyfloat list option)" where
  \<comment> \<open>\<^verbatim>\<open>CNN._preprocess\<close>; the result carries \<^verbatim>\<open>y\<close> when \<^verbatim>\<open>y\<close> was given\<close>
  "preprocess self X y =
     (case shape X of
        [] \<Rightarrow> Inl (Raise IndexError ''tuple index out of range'')
      | [r] \<Rightarrow> Inl (Raise IndexError ''tuple index out of range'')
      | r # c # rest \<Rightarrow>
          if int_of (n_nodes self) * int_of (n_channels self) \<noteq> int c
          then Inl product_error
          else if length (shape X) > 2
          then Inl (Raise ValueError ''Expected X to be a 2D matrix.'')
          else
            and_then
              (case y of
                 None \<Rightarrow> Inr (X, None)
               | Some v \<Rightarrow>
                   and_then (take_rows (not_nan_mask v) X) (\<lambda>X1.
                     Inr (X1, Some (mask_select (not_nan_mask v) v))))
              (\<lambda>(X1, y1).
            and_then (SimpleImputer_fit (strategy self) X1) (\<lambda>imp.
            and_then (SimpleImputer_transform imp X1) (\<lambda>X2.
            and_then
              (case y1 of
                 None \<Rightarrow> Inr (X2, None)
               | Some v \<Rightarrow> and_then (check_X_y X2 v) (\<lambda>(X3, v3). Inr (X3, Some v3)))
              (\<lambda>(X3, y3).
            and_then (to_tensor self X3) (\<lambda>X4. Inr (X4, y3)))))))"

definition fit ::
  "('m, 'hp) framework \<Rightarrow> 'm CNN \<Rightarrow> pyfloat ndarray \<Rightarrow> pyfloat list \<Rightarrow> error + 'm CNN" where
  \<comment> \<open>\<^verbatim>\<open>CNN.fit\<close>: the estimator after a successful fit, or the exception (the estimator
      is then as it was). \<^verbatim>\<open>_preprocess\<close> returns a pair whenever it is given a \<^verbatim>\<open>y\<close>
      (lemma \<open>preprocess_keeps_y\<close>), so the unpacking in the first line cannot fail.\<close>
  "fit env self X y =
     and_then (preprocess self X (Some y)) (\<lambda>(X1, y1).
     (case y1 of
        None \<Rightarrow> Inl (Raise TypeError ''cannot unpack'')
      | Some y2 \<Rightarrow>
     and_then (train_test_split env X1 y2 (test_size self) (random_state self))
       (\<lambda>(X_train, X_tst, y_train, y_tst).
     and_then
       (ModelBuilder_init (HAS_KERAS env) (tuner self) (tl (shape X_train)) (layers self)
          (max_epochs self) X_tst y_tst (batch_size self) (directory self)
          (project_name self) (tuner_kwargs self))
       (\<lambda>builder.
     and_then
       (if tuner self = PyNone then build_basic_model env builder X_train y_train
        else build_tuned_model env builder X_train y_train)
       (\<lambda>m. Inr (self\<lparr>cnn_model := Some m, cnn_is_fitted := Some True\<rparr>))))))"

definition not_fitted_error :: error where
  "not_fitted_error = Raise NotFittedError ''This CNN instance is not fitted yet.''"

definition check_is_fitted :: "'m CNN \<Rightarrow> error + unit" where
  \<comment> \<open>\<^verbatim>\<open>sklearn.utils.validation.check_is_fitted(self, "is_fitted_")\<close>: the estimator is
      fitted when it has the attribute\<close>
  "check_is_fitted self =
     (case cnn_is_fitted self of None \<Rightarrow> Inl not_fitted_error | Some _ \<Rightarrow> Inr ())"

definition predict ::
  "('m, 'hp) framework \<Rightarrow> 'm CNN \<Rightarrow> pyfloat ndarray \<Rightarrow> error + pyfloat ndarray" where
  \<comment> \<open>\<^verbatim>\<open>CNN.predict\<close>\<close>
  "predict env self X =
     and_then (preprocess self X None) (\<lambda>(X1, _).
     and_then (check_is_fitted self) (\<lambda>_.
     (case cnn_model self of
        None \<Rightarrow> Inl (Raise AttributeError ''NoneType object has no attribute predict'')
      | Some m \<Rightarrow> and_then (model_predict env m X1) (\<lambda>pred. Inr (squeeze pred)))))"

definition score :: "'m CNN \<Rightarrow> pyfloat list \<Rightarrow> pyfloat list \<Rightarrow> error + pyfloat" where
  \<comment> \<open>\<^verbatim>\<open>CNN.score\<close>: only \<^verbatim>\<open>y_test\<close> is indexed with the mask\<close>
  "score self y_test0 y_hat =
     (let nan_mask = not_nan_mask y_test0;
          y_test1 = mask_select nan_mask y_test0
      in r2_score y_test1 y_hat)"

section \<open>Notions used in the statements\<close>

text \<open>
  The entry of \<open>X\<close> at row \<open>i\<close> and column \<open>j\<close> after imputation with the statistics of
  \<open>X\<close> itself: an observed entry stays, a missing one becomes the statistic of column
  \<open>j\<close> of \<open>X\<close>.
\<close>

definition imputed :: "string \<Rightarrow> pyfloat ndarray \<Rightarrow> nat \<Rightarrow> nat \<Rightarrow> pyfloat" where
  "imputed strat X i j =
     (case at2 X i j of None \<Rightarrow> statistic strat (column X j) | Some v \<Rightarrow> Some v)"


section \<open>Concrete inputs\<close>

text \<open>
  The estimator \<^verbatim>\<open>CNN(n_nodes=2, n_channels=1)\<close> as the constructor leaves it, and an
  instance of the external frameworks in which every call succeeds at once. They serve
  the examples that follow the theorems.
\<close>

definition cnn_2_1 :: "unit CNN" where
  "cnn_2_1 =
     \<lparr>n_nodes = IntVal 2, n_channels = IntVal 1, layers = IntVal 1, max_epochs = IntVal 50,
      batch_size = IntVal 32, tuner = PyNone, test_size = Some (2 / 10),
      strategy = ''median'', random_state = IntVal 200,
      directory = PyNone, project_name = PyNone, tuner_kwargs = [], cnn_model = None,
      cnn_best_hps = PyNone, cnn_is_fitted = None\<rparr>"

definition trivial_framework :: "(unit, unit) framework" where
  "trivial_framework =
     \<lparr>HAS_KERAS = True,
      train_test_split = (\<lambda>X y ts rs. Inr (X, X, y, y)),
      sequential_compile = (\<lambda>ishape ls. Inr ()),
      fit_with_checkpoint = (\<lambda>m X y epochs bs Xt yt. Inr m),
      tuner_search = (\<lambda>t X y. Inr ()),
      hypermodel_build = (\<lambda>t hps. Inr ()),
      model_predict = (\<lambda>m X. Inr \<lparr>shape = [hd (shape X), 1],
                                    items = replicate (hd (shape X)) (Some 0)\<rparr>)\<rparr>"

section \<open>Properties\<close>

subsection \<open>Flat indexing\<close>

lemma length_concat_uniform:
  "\<forall>xs \<in> set xss. length xs = m \<Longrightarrow> length (concat xss) = length xss * m"
  by (induction xss) simp_all

lemma concat_uniform_nth:
  "\<forall>xs \<in> set xss. length xs = m \<Longrightarrow> p < length xss \<Longrightarrow> j < m \<Longrightarrow>
   concat xss ! (p * m + j) = xss ! p ! j"
proof (induction xss arbitrary: p)
  case Nil
  then show ?case by simp
next
  case (Cons xs xss)
  show ?case
  proof (cases p)
    case 0
    with Cons.prems show ?thesis by (simp add: nth_append)
  next
    case (Suc q)
    with Cons.prems have "concat xss ! (q * m + j) = xss ! q ! j"
      by (intro Cons.IH) simp_all
    with Suc Cons.prems show ?thesis by (simp add: nth_append)
  qed
qed

lemma flat_index_less: "i < (r::nat) \<Longrightarrow> k < c \<Longrightarrow> i * c + k < r * c"
proof -
  assume "i < r" and "k < c"
  then have "i * c + k < Suc i * c" by simp
  also have "\<dots> \<le> r * c" using \<open>i < r\<close> by (intro mult_le_mono1) simp
  finally show ?thesis .
qed

lemma nat_prod_eq:
  fixes N C :: int and c :: nat
  assumes "N * C = int c" and "0 \<le> N" and "0 \<le> C"
  shows "c = nat C * nat N"
proof -
  have "int (nat C * nat N) = C * N" using assms(2,3) by simp
  also have "\<dots> = int c" using assms(1) by (simp only: mult.commute)
  finally have "int (nat C * nat N) = int c" .
  then have "nat C * nat N = c" by (simp only: of_nat_eq_iff)
  then show ?thesis by (rule sym)
qed

lemma take1_drop: "p < length xs \<Longrightarrow> take (Suc 0) (drop p xs) = [xs ! p]"
  by (simp add: take_Suc_conv_app_nth)

lemma swapaxes_3d:
  assumes "shape A = [d0, d1, d2]" and "length (items A) = d0 * d1 * d2"
  shows "\<exists>T. swapaxes_1_2 A = Inr T \<and> shape T = [d0, d2, d1] \<and>
             length (items T) = d0 * d2 * d1 \<and>
             (\<forall>i<d0. \<forall>j<d2. \<forall>k<d1. at3 T i j k = at3 A i k j)"
proof -
  define cell where "cell = (\<lambda>i j k. take (Suc 0) (drop ((i * d1 + k) * d2 + j) (items A)))"
  define line where "line = (\<lambda>i j. concat (map (cell i j) [0..<d1]))"
  define plane where "plane = (\<lambda>i. concat (map (line i) [0..<d2]))"
  define T where "T = \<lparr>shape = [d0, d2, d1], items = concat (map plane [0..<d0])\<rparr>"
  have res: "swapaxes_1_2 A = Inr T"
    using assms(1) by (simp add: swapaxes_1_2_def T_def plane_def line_def cell_def)
  have idx: "(i * d1 + k) * d2 + j < length (items A)" if "i < d0" "k < d1" "j < d2" for i j k
  proof -
    have "i * d1 + k < d0 * d1" using that by (simp add: flat_index_less)
    then have "(i * d1 + k) * d2 + j < (d0 * d1) * d2" using that by (simp add: flat_index_less)
    then show ?thesis using assms(2) by simp
  qed
  have cell: "cell i j k = [items A ! ((i * d1 + k) * d2 + j)]" if "i < d0" "k < d1" "j < d2" for i j k
    unfolding cell_def using idx[OF that] by (rule take1_drop)
  have line_len: "length (line i j) = d1" if "i < d0" "j < d2" for i j
  proof -
    have "length (line i j) = length (map (cell i j) [0..<d1]) * 1"
      unfolding line_def using that by (intro length_concat_uniform) (auto simp: cell)
    then show ?thesis by simp
  qed
  have line_nth: "line i j ! k = items A ! ((i * d1 + k) * d2 + j)" if "i < d0" "j < d2" "k < d1" for i j k
  proof -
    have "concat (map (cell i j) [0..<d1]) ! (k * 1 + 0) = map (cell i j) [0..<d1] ! k ! 0"
      using that by (intro concat_uniform_nth) (auto simp: cell)
    then show ?thesis using that by (simp add: line_def cell)
  qed
  have plane_len: "length (plane i) = d2 * d1" if "i < d0" for i
  proof -
    have "length (plane i) = length (map (line i) [0..<d2]) * d1"
      unfolding plane_def using that by (intro length_concat_uniform) (auto simp: line_len)
    then show ?thesis by simp
  qed
  have plane_nth: "plane i ! (j * d1 + k) = line i j ! k" if "i < d0" "j < d2" "k < d1" for i j k
  proof -
    have "concat (map (line i) [0..<d2]) ! (j * d1 + k) = map (line i) [0..<d2] ! j ! k"
      using that by (intro concat_uniform_nth) (auto simp: line_len)
    then show ?thesis using that by (simp add: plane_def)
  qed
  have len: "length (items T) = d0 * d2 * d1"
  proof -
    have "length (concat (map plane [0..<d0])) = length (map plane [0..<d0]) * (d2 * d1)"
      by (intro length_concat_uniform) (auto simp: plane_len)
    then show ?thesis by (simp add: T_def)
  qed
  have nth: "at3 T i j k = at3 A i k j" if "i < d0" "j < d2" "k < d1" for i j k
  proof -
    have jk: "j * d1 + k < d2 * d1" using that by (simp add: flat_index_less)
    have "concat (map plane [0..<d0]) ! (i * (d2 * d1) + (j * d1 + k)) = map plane [0..<d0] ! i ! (j * d1 + k)"
      using that jk by (intro concat_uniform_nth) (auto simp: plane_len)
    then have "items T ! ((i * d2 + j) * d1 + k) = plane i ! (j * d1 + k)"
      using that by (simp add: T_def algebra_simps)
    then show ?thesis
      using that assms(1) by (simp add: at3_def T_def plane_nth line_nth)
  qed
  show ?thesis using res len nth by (auto simp: T_def)
qed

lemma np_reshape_3d:
  assumes "length (items X) = r * c" and "int_of N * int_of C = int c"
    and "0 \<le> int_of N" and "0 \<le> int_of C" and "\<not> is_bool N" and "\<not> is_bool C"
  shows "np_reshape X [IntVal (int r), C, N] =
         Inr \<lparr>shape = [r, nat (int_of C), nat (int_of N)], items = items X\<rparr>"
proof -
  have "c = nat (int_of C) * nat (int_of N)" using assms(2-4) by (rule nat_prod_eq)
  then show ?thesis using assms by (simp add: np_reshape_def)
qed

lemma to_tensor_Inr:
  assumes "shape X = [r, c]" and "wf_array X"
    and "int_of (n_nodes self) * int_of (n_channels self) = int c"
    and "0 \<le> int_of (n_nodes self)" and "0 \<le> int_of (n_channels self)"
    and "\<not> is_bool (n_nodes self)" and "\<not> is_bool (n_channels self)"
  shows "\<exists>T. to_tensor self X = Inr T \<and>
             shape T = [r, nat (int_of (n_nodes self)), nat (int_of (n_channels self))] \<and> wf_array T \<and>
             (\<forall>i<r. \<forall>n<nat (int_of (n_nodes self)). \<forall>ch<nat (int_of (n_channels self)).
                at3 T i n ch = at2 X i (ch * nat (int_of (n_nodes self)) + n))"
proof -
  let ?N = "nat (int_of (n_nodes self))" and ?C = "nat (int_of (n_channels self))"
  define R where "R = \<lparr>shape = [r, ?C, ?N], items = items X\<rparr>"
  have len: "length (items X) = r * c" using assms(1,2) by (simp add: wf_array_def)
  have c: "c = ?C * ?N" using assms(3-5) by (rule nat_prod_eq)
  have "np_reshape X [IntVal (int r), n_channels self, n_nodes self] = Inr R"
    unfolding R_def by (rule np_reshape_3d [OF len assms(3-7)])
  moreover obtain T where T: "swapaxes_1_2 R = Inr T" "shape T = [r, ?N, ?C]"
      "length (items T) = r * ?N * ?C" "\<forall>i<r. \<forall>j<?N. \<forall>k<?C. at3 T i j k = at3 R i k j"
    using swapaxes_3d[of R r ?C ?N] len c by (auto simp: R_def)
  ultimately have "to_tensor self X = Inr T"
    using assms(1) by (simp add: to_tensor_def and_then_def)
  moreover have "at3 R i k j = at2 X i (k * ?N + j)" for i j k
    using assms(1) c by (simp add: at3_def at2_def R_def algebra_simps)
  ultimately show ?thesis using T by (auto simp: wf_array_def)
qed


subsection \<open>Which exceptions preprocessing raises\<close>

lemma take_rows_exn: "take_rows m X = Inl (Raise k msg) \<Longrightarrow> k = IndexError"
  by (auto simp: take_rows_def Let_def split: list.splits if_splits)

lemma fit_exn: "SimpleImputer_fit s X = Inl (Raise k msg) \<Longrightarrow> k = ValueError"
  by (auto simp: SimpleImputer_fit_def split: list.splits if_splits)

lemma transform_exn: "SimpleImputer_transform s X = Inl (Raise k msg) \<Longrightarrow> k = ValueError"
  by (auto simp: SimpleImputer_transform_def Let_def split: list.splits if_splits)

lemma check_X_y_exn: "check_X_y X y = Inl (Raise k msg) \<Longrightarrow> k = ValueError"
  by (auto simp: check_X_y_def split: list.splits if_splits)

lemma np_reshape_exn:
  "np_reshape X s = Inl (Raise k msg) \<Longrightarrow> k \<in> {ValueError, TypeError}"
  by (auto simp: np_reshape_def Let_def cannot_reshape_def unknown_dimension_def
      not_an_integer_def split: if_splits)

lemma swapaxes_exn: "swapaxes_1_2 X = Inl (Raise k msg) \<Longrightarrow> k = AxisError"
  by (auto simp: swapaxes_1_2_def Let_def split: list.splits)

lemma to_tensor_exn:
  "to_tensor self X = Inl (Raise k msg) \<Longrightarrow> k \<in> {ValueError, TypeError, IndexError, AxisError}"
  by (auto simp: to_tensor_def and_then_def split: list.splits sum.splits dest: np_reshape_exn swapaxes_exn)

lemma preprocess_exn:
  "preprocess self X y = Inl (Raise k msg) \<Longrightarrow>
   k \<in> {ValueError, TypeError, IndexError, AxisError}"
  unfolding preprocess_def and_then_def product_error_def
  by (auto split: list.splits sum.splits if_splits option.splits prod.splits
      dest: take_rows_exn fit_exn transform_exn check_X_y_exn to_tensor_exn)


lemma preprocess_not_NotFitted: "preprocess self X y \<noteq> Inl not_fitted_error"
  using preprocess_exn [of self X y NotFittedError] by (auto simp: not_fitted_error_def)

lemma preprocess_product_error:
  "shape X = r # c # rest \<Longrightarrow> int_of (n_nodes self) * int_of (n_channels self) \<noteq> int c \<Longrightarrow>
   preprocess self X y = Inl product_error"
  by (simp add: preprocess_def)

subsection \<open>Masking\<close>

lemma mask_select_not_nan: "mask_select (not_nan_mask y) y = filter (\<lambda>v. \<not> isnan v) y"
  by (induction y) (simp_all add: mask_select_def not_nan_mask_def)

subsection \<open>Row selection and imputation\<close>

lemma chunk_length:
  "i < r \<Longrightarrow> length xs = r * c \<Longrightarrow> length (take c (drop (i * c) xs)) = c"
proof -
  assume "i < r" and len: "length xs = r * c"
  then have "Suc i * c \<le> r * c" by (intro mult_le_mono1) simp
  then show ?thesis using len by simp
qed

lemma chunk_nth:
  "i < r \<Longrightarrow> j < c \<Longrightarrow> length xs = r * c \<Longrightarrow> take c (drop (i * c) xs) ! j = xs ! (i * c + j)"
  using flat_index_less [of i r j c] by simp

lemma take_rows_Inr:
  assumes "shape X = [r, c]" and "wf_array X" and "length msk = r"
  shows "\<exists>X1. take_rows msk X = Inr X1 \<and> shape X1 = [length (kept_rows msk), c] \<and>
              wf_array X1 \<and>
              (\<forall>p<length (kept_rows msk). \<forall>j<c. at2 X1 p j = at2 X (kept_rows msk ! p) j)"
proof -
  define blk where "blk = (\<lambda>i. take c (drop (i * c) (items X)))"
  define X1 where
    "X1 = \<lparr>shape = [length (kept_rows msk), c], items = concat (map blk (kept_rows msk))\<rparr>"
  have len: "length (items X) = r * c" using assms(1,2) by (simp add: wf_array_def)
  have kept: "i < r" if "i \<in> set (kept_rows msk)" for i
    using that assms(3) by (auto simp: kept_rows_def)
  have res: "take_rows msk X = Inr X1"
    using assms(1,3) by (simp add: take_rows_def X1_def blk_def)
  have "length (blk i) = c" if "i \<in> set (kept_rows msk)" for i
    unfolding blk_def using kept [OF that] len by (rule chunk_length)
  then have blk_len: "\<forall>xs \<in> set (map blk (kept_rows msk)). length xs = c"
    by auto
  have wf: "wf_array X1"
    using length_concat_uniform [OF blk_len] by (simp add: wf_array_def X1_def)
  have nth: "at2 X1 p j = at2 X (kept_rows msk ! p) j"
    if "p < length (kept_rows msk)" "j < c" for p j
  proof -
    have "concat (map blk (kept_rows msk)) ! (p * c + j) = map blk (kept_rows msk) ! p ! j"
      using blk_len that by (intro concat_uniform_nth) simp_all
    moreover have "kept_rows msk ! p < r" using that kept by simp
    ultimately show ?thesis
      using that len assms(1) by (simp add: at2_def X1_def blk_def chunk_nth)
  qed
  show ?thesis using res wf nth by (auto simp: X1_def)
qed

lemma filter_same_length: "length (filter P xs) = length xs \<Longrightarrow> filter P xs = xs"
proof (induction xs)
  case Nil
  then show ?case by simp
next
  case (Cons x xs)
  show ?case
  proof (cases "P x")
    case True
    with Cons show ?thesis by simp
  next
    case False
    with Cons.prems have "length (filter P xs) = Suc (length xs)" by simp
    moreover have "length (filter P xs) \<le> length xs" by (rule length_filter_le)
    ultimately show ?thesis by linarith
  qed
qed

lemma observed_empty_iff: "observed col = [] \<longleftrightarrow> (\<forall>v \<in> set col. isnan v)"
  by (induction col) (auto simp: observed_def isnan_def split: option.splits)

lemma statistic_Some:
  assumes "strat \<in> {''mean'', ''median''}" and "\<exists>v \<in> set col. \<not> isnan v"
  shows "\<not> isnan (statistic strat col)"
  using assms by (auto simp: statistic_def observed_empty_iff isnan_def)

lemma imputer_Inr:
  assumes "shape X = [r, c]" and "0 < r" and "0 < c"
    and "strat \<in> {''mean'', ''median'', ''most_frequent'', ''constant''}"
    and stats_def: "stats = map (\<lambda>j. statistic strat (column X j)) [0..<c]"
    and valid_def: "valid = filter (\<lambda>j. \<not> isnan (statistic strat (column X j))) [0..<c]"
  shows "SimpleImputer_fit strat X = Inr stats"
    and "SimpleImputer_transform stats X =
           Inr \<lparr>shape = [r, length valid],
                items = concat (map (\<lambda>i. map (imputed strat X i) valid) [0..<r])\<rparr>"
proof -
  show "SimpleImputer_fit strat X = Inr stats"
    using assms(1-4) by (auto simp: SimpleImputer_fit_def stats_def)
  have len_stats: "length stats = c" by (simp add: stats_def)
  have st: "stats ! j = statistic strat (column X j)" if "j < c" for j
    using that by (simp add: stats_def)
  have v: "filter (\<lambda>j. \<not> isnan (stats ! j)) [0..<c] = valid"
    unfolding valid_def by (rule filter_cong) (simp_all add: st)
  have "map (\<lambda>j. case at2 X i j of None \<Rightarrow> stats ! j | Some v \<Rightarrow> Some v) valid
        = map (imputed strat X i) valid" for i
    by (rule map_cong) (auto simp: imputed_def st valid_def split: option.splits)
  then have eq: "(\<lambda>i. map (\<lambda>j. case at2 X i j of None \<Rightarrow> stats ! j | Some v \<Rightarrow> Some v) valid)
        = (\<lambda>i. map (imputed strat X i) valid)"
    by (rule ext)
  show "SimpleImputer_transform stats X =
           Inr \<lparr>shape = [r, length valid],
                items = concat (map (\<lambda>i. map (imputed strat X i) valid) [0..<r])\<rparr>"
    using assms(1-3) by (simp add: SimpleImputer_transform_def len_stats v eq)
qed

lemma imputed_not_nan:
  "\<not> isnan (statistic strat (column X j)) \<Longrightarrow> \<not> isnan (imputed strat X i j)"
  by (simp add: imputed_def isnan_def split: option.splits)

lemma imputed_array:
  assumes valid_def: "valid = filter (\<lambda>j. \<not> isnan (statistic strat (column X j))) [0..<c]"
    and X2_def: "X2 = \<lparr>shape = [r, length valid],
                  items = concat (map (\<lambda>i. map (imputed strat X i) valid) [0..<r])\<rparr>"
  shows "wf_array X2"
    and "\<forall>v \<in> set (items X2). \<not> isnan v"
    and "length valid = c \<Longrightarrow> \<forall>i<r. \<forall>j<c. at2 X2 i j = imputed strat X i j"
proof -
  let ?row = "\<lambda>i. map (imputed strat X i) valid"
  have rows: "\<forall>xs \<in> set (map ?row [0..<r]). length xs = length valid" by auto
  show "wf_array X2"
    using length_concat_uniform [OF rows] by (simp add: wf_array_def X2_def)
  show "\<forall>v \<in> set (items X2). \<not> isnan v"
    by (auto simp: X2_def valid_def imputed_not_nan)
  show "\<forall>i<r. \<forall>j<c. at2 X2 i j = imputed strat X i j" if full: "length valid = c"
  proof (intro allI impI)
    fix i j assume "i < r" "j < c"
    have "length valid = length [0..<c]" using full by simp
    then have v: "valid = [0..<c]" unfolding valid_def by (rule filter_same_length)
    have "concat (map ?row [0..<r]) ! (i * length valid + j) = map ?row [0..<r] ! i ! j"
      using rows \<open>i < r\<close> \<open>j < c\<close> full by (intro concat_uniform_nth) simp_all
    then show "at2 X2 i j = imputed strat X i j"
      using \<open>i < r\<close> \<open>j < c\<close> by (simp add: at2_def X2_def v)
  qed
qed

lemma to_tensor_full:
  assumes "shape X2 = [r, v]" and "wf_array X2" and "0 < r" and "0 < c"
    and "int_of (n_nodes self) * int_of (n_channels self) = int c"
    and "to_tensor self X2 = Inr T"
  shows "v = c \<and> 0 < int_of (n_nodes self) \<and> 0 < int_of (n_channels self) \<and>
         \<not> is_bool (n_nodes self) \<and> \<not> is_bool (n_channels self)"
proof -
  let ?N = "int_of (n_nodes self)" and ?C = "int_of (n_channels self)"
  have len: "length (items X2) = r * v" using assms(1,2) by (simp add: wf_array_def)
  have pos: "0 < ?N * ?C" using assms(4,5) by simp
  obtain R where R: "np_reshape X2 [IntVal (int r), n_channels self, n_nodes self] = Inr R"
    using assms(1,6) by (auto simp: to_tensor_def and_then_def split: sum.splits)
  have nb: "\<not> is_bool (n_nodes self)" "\<not> is_bool (n_channels self)"
    using R by (auto simp: np_reshape_def split: if_splits)
  consider "0 < ?N \<and> 0 < ?C" | "?N < 0 \<and> ?C < 0"
    using pos by (auto simp: zero_less_mult_iff)
  then show ?thesis
  proof cases
    case 1
    have "c = nat ?C * nat ?N" using assms(5) 1 by (intro nat_prod_eq) simp_all
    with R 1 len nb have "r * v = r * c"
      by (auto simp: np_reshape_def split: if_splits)
    with \<open>0 < r\<close> 1 nb show ?thesis by simp
  next
    case 2
    with R nb show ?thesis by (simp add: np_reshape_def)
  qed
qed

lemma fit_Inr:
  "SimpleImputer_fit strat X = Inr st \<Longrightarrow> shape X = [r, c] \<Longrightarrow>
   0 < r \<and> 0 < c \<and> strat \<in> {''mean'', ''median'', ''most_frequent'', ''constant''}"
  by (auto simp: SimpleImputer_fit_def split: if_splits)

lemma preprocess_None_unfold:
  assumes "shape X = [r, c]" and "int_of (n_nodes self) * int_of (n_channels self) = int c"
  shows "preprocess self X None =
         and_then (SimpleImputer_fit (strategy self) X) (\<lambda>imp.
         and_then (SimpleImputer_transform imp X) (\<lambda>X2.
         and_then (to_tensor self X2) (\<lambda>T. Inr (T, None))))"
  using assms by (simp add: preprocess_def and_then_def split: sum.splits)

lemma check_X_y_Inr: "check_X_y X y = Inr (X3, y3) \<Longrightarrow> X3 = X \<and> y3 = y"
  by (auto simp: check_X_y_def split: list.splits if_splits)

lemma preprocess_Some_unfold:
  assumes "shape X = [r, c]" and "int_of (n_nodes self) * int_of (n_channels self) = int c"
  shows "preprocess self X (Some y) =
         and_then (take_rows (not_nan_mask y) X) (\<lambda>X1.
         and_then (SimpleImputer_fit (strategy self) X1) (\<lambda>imp.
         and_then (SimpleImputer_transform imp X1) (\<lambda>X2.
         and_then (check_X_y X2 (filter (\<lambda>v. \<not> isnan v) y)) (\<lambda>_.
         and_then (to_tensor self X2) (\<lambda>T.
           Inr (T, Some (filter (\<lambda>v. \<not> isnan v) y)))))))"
  using assms
  by (auto simp: preprocess_def and_then_def mask_select_not_nan
      split: sum.splits dest: check_X_y_Inr)

subsection \<open>Preprocessing without a target\<close>

lemma column_observed:
  assumes "shape X = [r, c]" and "i < r" and "\<not> isnan (at2 X i j)"
  shows "\<exists>v \<in> set (column X j). \<not> isnan v"
  using assms by (auto simp: column_def)

lemma preprocess_None_success:
  assumes "shape X = [r, c]" and "wf_array X"
    and "int_of (n_nodes self) * int_of (n_channels self) = int c"
    and "0 < int_of (n_nodes self)" and "0 < int_of (n_channels self)"
    and "strategy self \<in> {''mean'', ''median''}"
    and "\<forall>j<c. \<exists>i<r. \<not> isnan (at2 X i j)"
    and nb: "\<not> is_bool (n_nodes self)" "\<not> is_bool (n_channels self)"
  shows "\<exists>T. preprocess self X None = Inr (T, None) \<and>
             shape T = [r, nat (int_of (n_nodes self)), nat (int_of (n_channels self))] \<and> wf_array T \<and>
             (\<forall>i<r. \<forall>n<nat (int_of (n_nodes self)). \<forall>ch<nat (int_of (n_channels self)).
                at3 T i n ch = imputed (strategy self) X i (ch * nat (int_of (n_nodes self)) + n))"
proof -
  let ?s = "strategy self" and ?N = "nat (int_of (n_nodes self))" and ?C = "nat (int_of (n_channels self))"
  define valid where "valid = filter (\<lambda>j. \<not> isnan (statistic ?s (column X j))) [0..<c]"
  define X2 where "X2 = \<lparr>shape = [r, length valid],
                  items = concat (map (\<lambda>i. map (imputed ?s X i) valid) [0..<r])\<rparr>"
  have "0 < int_of (n_nodes self) * int_of (n_channels self)" using assms(4,5) by simp
  then have c: "0 < c" using assms(3) by simp
  then obtain i0 where "i0 < r" using assms(7) by blast
  then have r: "0 < r" by simp
  have s: "?s \<in> {''mean'', ''median'', ''most_frequent'', ''constant''}"
    using assms(6) by auto
  have "\<not> isnan (statistic ?s (column X j))" if "j < c" for j
  proof -
    from assms(7) that obtain i where "i < r" "\<not> isnan (at2 X i j)" by blast
    then show ?thesis
      using statistic_Some [OF assms(6) column_observed [OF assms(1)]] by blast
  qed
  then have "valid = [0..<c]" by (simp add: valid_def)
  then have full: "length valid = c" by simp
  have fit: "SimpleImputer_fit ?s X = Inr (map (\<lambda>j. statistic ?s (column X j)) [0..<c])"
    and tr: "SimpleImputer_transform (map (\<lambda>j. statistic ?s (column X j)) [0..<c]) X = Inr X2"
    using imputer_Inr [OF assms(1) r c s refl valid_def] by (simp_all add: X2_def)
  have wf2: "wf_array X2" by (rule imputed_array(1) [OF valid_def X2_def])
  have el2: "\<forall>i<r. \<forall>j<c. at2 X2 i j = imputed ?s X i j"
    by (rule imputed_array(3) [OF valid_def X2_def full])
  have sh2: "shape X2 = [r, c]" by (simp add: X2_def full)
  obtain T where T: "to_tensor self X2 = Inr T" "shape T = [r, ?N, ?C]" "wf_array T"
    "\<forall>i<r. \<forall>n<?N. \<forall>ch<?C. at3 T i n ch = at2 X2 i (ch * ?N + n)"
    using to_tensor_Inr [OF sh2 wf2 assms(3) _ _ nb] assms(4,5) by auto
  have pre: "preprocess self X None = Inr (T, None)"
    by (simp add: preprocess_None_unfold [OF assms(1,3)] fit tr T(1) and_then_def)
  have cn: "c = ?C * ?N"
    using assms(3-5) by (intro nat_prod_eq) simp_all
  have el: "\<forall>i<r. \<forall>n<?N. \<forall>ch<?C. at3 T i n ch = imputed ?s X i (ch * ?N + n)"
  proof (intro allI impI)
    fix i n ch assume that: "i < r" "n < ?N" "ch < ?C"
    then have "ch * ?N + n < c" unfolding cn by (simp add: flat_index_less)
    then show "at3 T i n ch = imputed ?s X i (ch * ?N + n)" using that T(4) el2 by simp
  qed
  show ?thesis by (intro exI [of _ T] conjI pre T(2,3) el)
qed

lemma preprocess_None_Inr:
  assumes "shape X = [r, c]" and "wf_array X" and "preprocess self X None = Inr (T, y')"
  shows "y' = None \<and> 0 < r \<and> 0 < int_of (n_nodes self) \<and> 0 < int_of (n_channels self) \<and>
         int_of (n_nodes self) * int_of (n_channels self) = int c \<and>
         shape T = [r, nat (int_of (n_nodes self)), nat (int_of (n_channels self))] \<and> wf_array T \<and>
         (\<forall>j<c. \<not> isnan (statistic (strategy self) (column X j))) \<and>
         (\<forall>i<r. \<forall>n<nat (int_of (n_nodes self)). \<forall>ch<nat (int_of (n_channels self)).
            at3 T i n ch = imputed (strategy self) X i (ch * nat (int_of (n_nodes self)) + n))"
proof -
  let ?s = "strategy self" and ?N = "nat (int_of (n_nodes self))" and ?C = "nat (int_of (n_channels self))"
  define valid where "valid = filter (\<lambda>j. \<not> isnan (statistic ?s (column X j))) [0..<c]"
  define X2 where "X2 = \<lparr>shape = [r, length valid],
                  items = concat (map (\<lambda>i. map (imputed ?s X i) valid) [0..<r])\<rparr>"
  have prod: "int_of (n_nodes self) * int_of (n_channels self) = int c"
    using assms(1,3) by (auto simp: preprocess_def split: if_splits)
  note unf = preprocess_None_unfold [OF assms(1) prod]
  from assms(3) obtain st where st: "SimpleImputer_fit ?s X = Inr st"
    unfolding unf by (auto simp: and_then_def split: sum.splits)
  from fit_Inr [OF st assms(1)] have r: "0 < r" and c: "0 < c"
    and s: "?s \<in> {''mean'', ''median'', ''most_frequent'', ''constant''}" by simp_all
  have fit: "SimpleImputer_fit ?s X = Inr (map (\<lambda>j. statistic ?s (column X j)) [0..<c])"
    and tr: "SimpleImputer_transform (map (\<lambda>j. statistic ?s (column X j)) [0..<c]) X = Inr X2"
    using imputer_Inr [OF assms(1) r c s refl valid_def] by (simp_all add: X2_def)
  have tt: "to_tensor self X2 = Inr T" and y': "y' = None"
    using assms(3) unfolding unf by (auto simp: fit tr and_then_def split: sum.splits)
  have wf2: "wf_array X2" by (rule imputed_array(1) [OF valid_def X2_def])
  have sh2: "shape X2 = [r, length valid]" by (simp add: X2_def)
  from to_tensor_full [OF sh2 wf2 r c prod tt]
  have full: "length valid = c" and N: "0 < int_of (n_nodes self)"
    and C: "0 < int_of (n_channels self)"
    and nb: "\<not> is_bool (n_nodes self)" "\<not> is_bool (n_channels self)"
    by simp_all
  have "length valid = length [0..<c]" using full by simp
  then have "valid = [0..<c]" unfolding valid_def by (rule filter_same_length)
  then have "\<forall>j \<in> set [0..<c]. \<not> isnan (statistic ?s (column X j))"
    unfolding valid_def by (simp only: filter_id_conv)
  then have stats: "\<forall>j<c. \<not> isnan (statistic ?s (column X j))" by simp
  have el2: "\<forall>i<r. \<forall>j<c. at2 X2 i j = imputed ?s X i j"
    by (rule imputed_array(3) [OF valid_def X2_def full])
  obtain T' where T: "to_tensor self X2 = Inr T'" "shape T' = [r, ?N, ?C]" "wf_array T'"
    "\<forall>i<r. \<forall>n<?N. \<forall>ch<?C. at3 T' i n ch = at2 X2 i (ch * ?N + n)"
    using to_tensor_Inr [of X2 r c self] sh2 full wf2 prod N C nb by auto
  then have TT: "T' = T" using tt by simp
  have cn: "c = ?C * ?N"
    using prod N C by (intro nat_prod_eq) simp_all
  have el: "\<forall>i<r. \<forall>n<?N. \<forall>ch<?C. at3 T i n ch = imputed ?s X i (ch * ?N + n)"
  proof (intro allI impI)
    fix i n ch assume that: "i < r" "n < ?N" "ch < ?C"
    then have "ch * ?N + n < c" unfolding cn by (simp add: flat_index_less)
    then show "at3 T i n ch = imputed ?s X i (ch * ?N + n)" using that T(4) el2 TT by simp
  qed
  have sh: "shape T = [r, ?N, ?C]" and wf: "wf_array T" using T(2,3) TT by simp_all
  show ?thesis by (intro conjI y' r N C prod sh wf stats el)
qed

subsection \<open>Preprocessing with a target\<close>

lemma kept_rows_set: "set (kept_rows msk) = {i. i < length msk \<and> msk ! i}"
  by (auto simp: kept_rows_def)

lemma length_filter_index:
  "length (filter (\<lambda>i. map P xs ! i) [0..<length xs]) = length (filter P xs)"
proof (induction xs rule: rev_induct)
  case Nil
  then show ?case by simp
next
  case (snoc x xs)
  have "filter (\<lambda>i. map P (xs @ [x]) ! i) [0..<length xs]
        = filter (\<lambda>i. map P xs ! i) [0..<length xs]"
    by (rule filter_cong) (simp_all add: nth_append)
  with snoc show ?case by (simp add: nth_append)
qed

lemma length_kept_rows:
  "length (kept_rows (not_nan_mask y)) = length (filter (\<lambda>v. \<not> isnan v) y)"
  using length_filter_index [of "\<lambda>v. \<not> isnan v" y]
  by (simp add: kept_rows_def not_nan_mask_def)

lemma kept_rows_all:
  assumes "\<forall>v \<in> set y. \<not> isnan v"
  shows "kept_rows (not_nan_mask y) = [0..<length y]"
proof -
  have "\<forall>i \<in> set [0..<length (not_nan_mask y)]. not_nan_mask y ! i"
    using assms by (simp add: not_nan_mask_def)
  then have "filter (\<lambda>i. not_nan_mask y ! i) [0..<length (not_nan_mask y)] = [0..<length (not_nan_mask y)]"
    by (simp only: filter_id_conv)
  then show ?thesis by (simp add: kept_rows_def not_nan_mask_def)
qed

lemma concat_chunks:
  assumes "length xs = r * c"
  shows "concat (map (\<lambda>i. take c (drop (i * c) xs)) [0..<r]) = xs"
proof (rule nth_equalityI)
  let ?blk = "\<lambda>i. take c (drop (i * c) xs)"
  have blk: "\<forall>b \<in> set (map ?blk [0..<r]). length b = c"
    using assms by (auto simp del: length_take length_drop simp: chunk_length)
  show len: "length (concat (map ?blk [0..<r])) = length xs"
    using length_concat_uniform [OF blk] assms by simp
  fix k assume "k < length (concat (map ?blk [0..<r]))"
  then have k: "k < r * c" using len assms by simp
  then have c: "0 < c" by (cases c) simp_all
  have d: "k div c < r" using k c by (simp add: less_mult_imp_div_less)
  have m: "k mod c < c" using c by simp
  have "concat (map ?blk [0..<r]) ! (k div c * c + k mod c) = map ?blk [0..<r] ! (k div c) ! (k mod c)"
    using blk d m by (intro concat_uniform_nth) simp_all
  also have "\<dots> = ?blk (k div c) ! (k mod c)" using d by simp
  also have "\<dots> = xs ! (k div c * c + k mod c)" using d m assms by (rule chunk_nth)
  finally show "concat (map ?blk [0..<r]) ! k = xs ! k" by simp
qed

lemma take_rows_all:
  assumes "shape X = [r, c]" and "wf_array X" and "length msk = r"
    and "kept_rows msk = [0..<r]"
  shows "take_rows msk X = Inr X"
proof -
  have "length (items X) = r * c" using assms(1,2) by (simp add: wf_array_def)
  then have "concat (map (\<lambda>i. take c (drop (i * c) (items X))) [0..<r]) = items X"
    by (rule concat_chunks)
  then show ?thesis using assms(1,3,4) by (simp add: take_rows_def)
qed

lemma take_rows_shape:
  assumes "shape X = [r, c]" and "wf_array X" and "length y = r"
    and "take_rows (not_nan_mask y) X = Inr X1"
  shows "shape X1 = [length (filter (\<lambda>v. \<not> isnan v) y), c]" and "wf_array X1"
    and "\<forall>p<length (kept_rows (not_nan_mask y)). \<forall>j<c.
           at2 X1 p j = at2 X (kept_rows (not_nan_mask y) ! p) j"
proof -
  have "length (not_nan_mask y) = r" using assms(3) by (simp add: not_nan_mask_def)
  from take_rows_Inr [OF assms(1,2) this] assms(4)
  show "shape X1 = [length (filter (\<lambda>v. \<not> isnan v) y), c]" and "wf_array X1"
    and "\<forall>p<length (kept_rows (not_nan_mask y)). \<forall>j<c.
           at2 X1 p j = at2 X (kept_rows (not_nan_mask y) ! p) j"
    by (simp_all add: length_kept_rows)
qed

lemma take_rows_twice:
  assumes "shape X = [r, c]" and "wf_array X" and "length y = r"
    and "take_rows (not_nan_mask y) X = Inr X1"
  shows "take_rows (not_nan_mask (filter (\<lambda>v. \<not> isnan v) y)) X1 = Inr X1"
proof -
  let ?y1 = "filter (\<lambda>v. \<not> isnan v) y"
  have "kept_rows (not_nan_mask ?y1) = [0..<length ?y1]"
    by (rule kept_rows_all) simp
  moreover have "length (not_nan_mask ?y1) = length ?y1" by (simp add: not_nan_mask_def)
  ultimately show ?thesis
    using take_rows_shape(1,2) [OF assms] by (intro take_rows_all) simp_all
qed

lemma preprocess_Some_masked:
  assumes "shape X = [r, c]" and "wf_array X" and "length y = r"
    and "take_rows (not_nan_mask y) X = Inr X1"
  shows "preprocess self X (Some y) = preprocess self X1 (Some (filter (\<lambda>v. \<not> isnan v) y))"
proof (cases "int_of (n_nodes self) * int_of (n_channels self) = int c")
  case False
  then show ?thesis
    using assms(1) take_rows_shape(1) [OF assms] by (simp add: preprocess_product_error)
next
  case True
  have idem: "filter (\<lambda>v. \<not> isnan v) (filter (\<lambda>v. \<not> isnan v) y) = filter (\<lambda>v. \<not> isnan v) y"
    by simp
  show ?thesis
    unfolding preprocess_Some_unfold [OF assms(1) True]
      preprocess_Some_unfold [OF take_rows_shape(1) [OF assms] True]
      take_rows_twice [OF assms] assms(4) idem
    by (simp add: and_then_def)
qed

lemma preprocess_Some_Inr:
  assumes "shape X = [r, c]" and "wf_array X" and "length y = r"
    and "take_rows (not_nan_mask y) X = Inr X1"
    and "preprocess self X (Some y) = Inr (T, y')"
  shows "y' = Some (filter (\<lambda>v. \<not> isnan v) y) \<and> preprocess self X1 None = Inr (T, None)"
proof -
  have prod: "int_of (n_nodes self) * int_of (n_channels self) = int c"
    using assms(1,5) by (auto simp: preprocess_def split: if_splits)
  show ?thesis
    using assms(5)
    unfolding preprocess_Some_unfold [OF assms(1) prod]
      preprocess_None_unfold [OF take_rows_shape(1) [OF assms(1-4)] prod] assms(4)
    by (auto simp: and_then_def split: sum.splits)
qed


subsection \<open>The constructor and the fitted state\<close>

lemma CNN_init_example: "CNN_init True (default_args (PyInt 2) (PyInt 1)) = Inr cnn_2_1"
  by (simp add: CNN_init_def and_then_def check_keras_def default_args_def as_int_def
      as_str_def as_float_def cnn_2_1_def)

lemma CNN_init_unfitted: "CNN_init k a = Inr self \<Longrightarrow> cnn_is_fitted self = None"
  unfolding CNN_init_def and_then_def check_keras_def
  by (auto split: if_splits option.splits)

lemma CNN_init_tuner:
  "CNN_init k a = Inr self \<Longrightarrow> tuner self = PyNone \<or> (\<exists>s. tuner self = PyStr s)"
  unfolding CNN_init_def and_then_def check_keras_def
  by (auto simp: as_str_def split: if_splits option.splits pyval.splits)

lemma CNN_init_any_tuner:
  assumes "CNN_init k a = Inr (self :: 'm CNN)"
  shows "\<exists>c :: 'n CNN. CNN_init k (a\<lparr>arg_tuner := PyStr s\<rparr>) = Inr c \<and> tuner c = PyStr s"
  using assms unfolding CNN_init_def and_then_def check_keras_def
  by (auto simp: as_str_def split: if_splits option.splits)

lemma CNN_init_keras: "CNN_init k a = Inr self \<Longrightarrow> k"
  unfolding CNN_init_def and_then_def check_keras_def
  by (auto split: if_splits)

lemma predict_unfitted:
  assumes "cnn_is_fitted self = None"
  shows "predict env self X =
         (case preprocess self X None of Inl e \<Rightarrow> Inl e | Inr T \<Rightarrow> Inl not_fitted_error)"
  using assms
  by (simp add: predict_def and_then_def check_is_fitted_def split: sum.splits prod.splits)

subsection \<open>When preprocessing succeeds\<close>

lemma imputed_observed: "\<not> isnan (at2 X i j) \<Longrightarrow> imputed strat X i j = at2 X i j"
  by (auto simp: imputed_def isnan_def split: option.splits)

lemma at2_in_items:
  assumes "shape X = [r, c]" and "wf_array X" and "i < r" and "j < c"
  shows "at2 X i j \<in> set (items X)"
proof -
  have "i * c + j < length (items X)"
    using assms by (simp add: wf_array_def flat_index_less)
  then show ?thesis using assms(1) by (simp add: at2_def)
qed

lemma pos_factors:
  fixes N C :: int
  assumes "N * C = int c" and "0 < c" and "0 \<le> N" and "0 \<le> C"
  shows "0 < N \<and> 0 < C"
proof -
  have "N \<noteq> 0" and "C \<noteq> 0" using assms(1,2) by auto
  then show ?thesis using assms(3,4) by simp
qed



subsection \<open>fit and the fitted state\<close>

lemma fit_masked:
  assumes "shape X = [r, c]" and "wf_array X" and "length y = r"
    and "take_rows (not_nan_mask y) X = Inr X1"
  shows "fit env self X y = fit env self X1 (filter (\<lambda>v. \<not> isnan v) y)"
  by (simp add: fit_def preprocess_Some_masked [OF assms])

lemma preprocess_keeps_y:
  "preprocess self X (Some y) = Inr (T, y') \<Longrightarrow> y' \<noteq> None"
  unfolding preprocess_def and_then_def
  by (auto split: list.splits if_splits sum.splits prod.splits)

lemma to_tensor_state_independent:
  "to_tensor (self\<lparr>cnn_model := m, cnn_is_fitted := f\<rparr>) X = to_tensor self X"
  by (simp add: to_tensor_def split: list.splits)

lemma preprocess_state_independent:
  "preprocess (self\<lparr>cnn_model := m, cnn_is_fitted := f\<rparr>) X y = preprocess self X y"
  by (simp add: preprocess_def to_tensor_state_independent split: list.splits)

lemma fit_Inr_state:
  assumes "fit env self X y = Inr self'"
  shows "\<exists>m. self' = self\<lparr>cnn_model := Some m, cnn_is_fitted := Some True\<rparr>"
  using assms unfolding fit_def and_then_def
  by (auto split: sum.splits prod.splits option.splits)

subsection \<open>The tuner\<close>

lemma build_tuned_model_invalid:
  "class_type B = PyStr s \<Longrightarrow> s \<notin> {''hyperband'', ''bayesian'', ''random''} \<Longrightarrow>
   build_tuned_model env B X y = Inl tuner_error"
  by (simp add: build_tuned_model_def get_tuner_def and_then_def)

lemma fit_invalid_tuner:
  assumes "tuner self = PyStr s" and "s \<notin> {''hyperband'', ''bayesian'', ''random''}"
  shows "\<exists>e. fit env self X y = Inl e"
  using assms unfolding fit_def and_then_def ModelBuilder_init_def
  by (auto simp: build_tuned_model_invalid
      split: sum.splits prod.splits option.splits if_splits)

section \<open>The claims\<close>

subsection \<open>C2: score\<close>

text \<open>
  C2 says that \<^verbatim>\<open>score\<close>, given vectors of equal length of which \<^verbatim>\<open>y_test\<close> has a
  missing entry, leaves out the pairs whose ground truth is missing and returns the
  coefficient of determination of the other pairs. The method indexes \<^verbatim>\<open>y_test\<close> with the
  mask and passes \<^verbatim>\<open>y_hat\<close> on whole, so on every such input the two vectors that reach
  \<^verbatim>\<open>r2_score\<close> differ in length and the call raises ValueError: no score is returned.
\<close>

theorem score_masks_only_y_test:
  assumes "length y_test0 = length y_hat" and "\<exists>v \<in> set y_test0. isnan v"
  shows "score self y_test0 y_hat =
         Inl (Raise ValueError ''Found input variables with inconsistent numbers of samples'')"
proof -
  from assms(2) obtain v where "v \<in> set y_test0" and "\<not> \<not> isnan v" by auto
  then have "length (filter (\<lambda>v. \<not> isnan v) y_test0) < length y_test0"
    by (rule length_filter_less)
  then show ?thesis
    using assms(1) by (simp add: score_def r2_score_def mask_select_not_nan)
qed

theorem score_masks_only_y_test_witness:
  "length [Some 1, None, Some (3::real)] = length [Some 1, Some 2, Some (3::real)] \<and>
   (\<exists>v \<in> set [Some 1, None, Some (3::real)]. isnan v) \<and>
   score cnn_2_1 [Some 1, None, Some 3] [Some 1, Some 2, Some 3] =
     Inl (Raise ValueError ''Found input variables with inconsistent numbers of samples'')"
  using score_masks_only_y_test [of "[Some 1, None, Some 3]" "[Some 1, Some 2, Some 3]" cnn_2_1]
  by (simp add: isnan_def)

subsection \<open>C6: the imputation strategy\<close>

text \<open>
  C6: with keras installed and the arguments checked before it well typed, the
  constructor raises TypeError when \<^verbatim>\<open>strategy\<close> is not a string, raises ValueError when
  it is a string other than \<^verbatim>\<open>median\<close>, \<^verbatim>\<open>mean\<close> and \<^verbatim>\<open>knn\<close>, and accepts each of these
  three (the random seed, checked after it, being an integer).
\<close>

theorem CNN_init_strategy:
  fixes a :: CNN_args
  assumes "as_int (arg_n_nodes a) \<noteq> None" and "as_int (arg_n_channels a) \<noteq> None"
    and "as_int (arg_layers a) \<noteq> None" and "as_int (arg_max_epochs a) \<noteq> None"
    and "as_int (arg_batch_size a) \<noteq> None"
    and "as_str (arg_tuner a) \<noteq> None \<or> arg_tuner a = PyNone"
    and "as_float (arg_test_size a) \<noteq> None" and "as_int (arg_random_state a) \<noteq> None"
  shows "(as_str (arg_strategy a) = None \<longrightarrow>
            (CNN_init True a :: error + 'm CNN) =
              Inl (Raise TypeError ''Parameter strategy must be a string.''))
       \<and> (\<forall>s. arg_strategy a = PyStr s \<and> s \<notin> {''median'', ''mean'', ''knn''} \<longrightarrow>
            (CNN_init True a :: error + 'm CNN) =
              Inl (Raise ValueError ''Parameter strategy must be median, mean, or knn.''))
       \<and> (\<forall>s. arg_strategy a = PyStr s \<and> s \<in> {''median'', ''mean'', ''knn''} \<longrightarrow>
            (\<exists>c :: 'm CNN. CNN_init True a = Inr c \<and> strategy c = s))"
  using assms unfolding CNN_init_def and_then_def check_keras_def
  by (auto simp: as_str_def split: option.splits)

theorem CNN_init_strategy_witness:
  "(CNN_init True ((default_args (PyInt 2) (PyInt 1))\<lparr>arg_strategy := PyInt 3\<rparr>) :: error + unit CNN) =
      Inl (Raise TypeError ''Parameter strategy must be a string.'')
   \<and> (CNN_init True ((default_args (PyInt 2) (PyInt 1))\<lparr>arg_strategy := PyStr ''most_frequent''\<rparr>) :: error + unit CNN) =
      Inl (Raise ValueError ''Parameter strategy must be median, mean, or knn.'')
   \<and> (\<exists>c :: unit CNN. CNN_init True ((default_args (PyInt 2) (PyInt 1))\<lparr>arg_strategy := PyStr ''knn''\<rparr>) = Inr c
         \<and> strategy c = ''knn'')"
  using CNN_init_strategy [of "(default_args (PyInt 2) (PyInt 1))\<lparr>arg_strategy := PyInt 3\<rparr>", where 'm = unit]
    CNN_init_strategy [of "(default_args (PyInt 2) (PyInt 1))\<lparr>arg_strategy := PyStr ''most_frequent''\<rparr>", where 'm = unit]
    CNN_init_strategy [of "(default_args (PyInt 2) (PyInt 1))\<lparr>arg_strategy := PyStr ''knn''\<rparr>", where 'm = unit]
  by (simp add: default_args_def as_int_def as_str_def as_float_def)

subsection \<open>C7: the validation split fraction\<close>

text \<open>
  C7 says that the constructor rejects every \<^verbatim>\<open>test_size\<close> that is not a float and every
  float outside the open interval (0, 1). The constructor checks the type only: it accepts
  1.5.
\<close>

theorem CNN_init_test_size_counterexample:
  "(CNN_init True ((default_args (PyInt 2) (PyInt 1))\<lparr>arg_test_size := PyFloat (Some (3 / 2))\<rparr>)
      :: error + unit CNN) = Inr (cnn_2_1\<lparr>test_size := Some (3 / 2)\<rparr>)
   \<and> \<not> ((0::real) < 3 / 2 \<and> (3 / 2 :: real) < 1)"
  by (simp add: CNN_init_def and_then_def check_keras_def default_args_def as_int_def
      as_str_def as_float_def cnn_2_1_def)

text \<open>
  C7, amended: the constructor validates the type of \<^verbatim>\<open>test_size\<close> only. Every value
  that is not a float is rejected with TypeError, and every float, whatever its value, is
  accepted and stored (the arguments checked after it being valid).
\<close>

theorem CNN_init_test_size:
  fixes a :: CNN_args
  assumes "as_int (arg_n_nodes a) \<noteq> None" and "as_int (arg_n_channels a) \<noteq> None"
    and "as_int (arg_layers a) \<noteq> None" and "as_int (arg_max_epochs a) \<noteq> None"
    and "as_int (arg_batch_size a) \<noteq> None"
    and "as_str (arg_tuner a) \<noteq> None \<or> arg_tuner a = PyNone"
  shows "(as_float (arg_test_size a) = None \<longrightarrow>
            (CNN_init True a :: error + 'm CNN) =
              Inl (Raise TypeError ''Parameter test_size must be a float.''))
       \<and> (\<forall>x. arg_test_size a = PyFloat x
              \<and> arg_strategy a \<in> PyStr ` {''median'', ''mean'', ''knn''}
              \<and> as_int (arg_random_state a) \<noteq> None \<longrightarrow>
            (\<exists>c :: 'm CNN. CNN_init True a = Inr c \<and> test_size c = x))"
  using assms unfolding CNN_init_def and_then_def check_keras_def
  by (auto simp: as_str_def as_float_def split: option.splits)

theorem CNN_init_test_size_witness:
  "(CNN_init True ((default_args (PyInt 2) (PyInt 1))\<lparr>arg_test_size := PyInt 1\<rparr>) :: error + unit CNN) =
      Inl (Raise TypeError ''Parameter test_size must be a float.'')
   \<and> (\<exists>c :: unit CNN. CNN_init True ((default_args (PyInt 2) (PyInt 1))\<lparr>arg_test_size := PyFloat (Some (-7))\<rparr>) = Inr c
         \<and> test_size c = Some (-7))"
  using CNN_init_test_size [of "(default_args (PyInt 2) (PyInt 1))\<lparr>arg_test_size := PyInt 1\<rparr>", where 'm = unit]
    CNN_init_test_size [of "(default_args (PyInt 2) (PyInt 1))\<lparr>arg_test_size := PyFloat (Some (-7))\<rparr>", where 'm = unit]
  by (simp add: default_args_def as_int_def as_str_def as_float_def)

subsection \<open>C5 and C9: predict before fit\<close>

text \<open>
  C5 says that \<^verbatim>\<open>predict\<close> on an estimator that was never fitted fails with the
  not-fitted error. \<^verbatim>\<open>predict\<close> preprocesses its input first: with three columns where
  \<^verbatim>\<open>n_nodes * n_channels\<close> is two, the error is the ValueError of the shape check.
\<close>

theorem predict_before_fit_counterexample:
  "CNN_init True (default_args (PyInt 2) (PyInt 1)) = Inr cnn_2_1 \<and>
   predict trivial_framework cnn_2_1 \<lparr>shape = [1, 3], items = [Some 1, Some 2, Some 3]\<rparr> =
     Inl product_error \<and>
   product_error \<noteq> not_fitted_error"
  by (simp add: CNN_init_example predict_def preprocess_def and_then_def cnn_2_1_def
      product_error_def not_fitted_error_def)

text \<open>
  C5, amended: \<^verbatim>\<open>predict\<close> on an estimator as the constructor leaves it never returns a
  prediction. It raises the not-fitted error when the preprocessing of its input succeeds,
  and the exception of the preprocessing otherwise.
\<close>

theorem predict_before_fit:
  assumes "CNN_init k a = Inr self"
  shows "(\<forall>P. predict env self X \<noteq> Inr P) \<and>
         predict env self X =
           (case preprocess self X None of Inl e \<Rightarrow> Inl e | Inr T \<Rightarrow> Inl not_fitted_error)"
  using predict_unfitted [OF CNN_init_unfitted [OF assms], of env X]
  by (auto split: sum.splits)

theorem predict_before_fit_witness:
  "CNN_init True (default_args (PyInt 2) (PyInt 1)) = Inr cnn_2_1 \<and>
   predict trivial_framework cnn_2_1 \<lparr>shape = [1, 2], items = [Some 1, Some 2]\<rparr> =
     Inl not_fitted_error"
proof -
  have "preprocess cnn_2_1 \<lparr>shape = [1, 2], items = [Some 1, Some 2]\<rparr> None =
        Inr (\<lparr>shape = [1, 2, 1], items = [Some 1, Some 2]\<rparr>, None)"
    by code_simp
  then show ?thesis
    using predict_before_fit [OF CNN_init_example, of trivial_framework
        "\<lparr>shape = [1, 2], items = [Some 1, Some 2]\<rparr>"]
    by (simp add: CNN_init_example)
qed

text \<open>
  C9: in \<^verbatim>\<open>predict\<close> the preprocessing runs before the fitted-state check. On an unfitted
  estimator, an input whose number of columns is not \<^verbatim>\<open>n_nodes * n_channels\<close> raises the
  ValueError of the shape check, which is not the not-fitted error, and the not-fitted
  error is raised exactly when the preprocessing succeeds.
\<close>

theorem predict_checks_shape_first:
  assumes "cnn_is_fitted self = None"
  shows "(\<forall>r c rest. shape X = r # c # rest \<and> int_of (n_nodes self) * int_of (n_channels self) \<noteq> int c \<longrightarrow>
            predict env self X = Inl product_error)
       \<and> product_error \<noteq> not_fitted_error
       \<and> (predict env self X = Inl not_fitted_error \<longleftrightarrow> (\<exists>T. preprocess self X None = Inr T))"
proof -
  have "predict env self X = Inl product_error"
    if "shape X = r # c # rest" "int_of (n_nodes self) * int_of (n_channels self) \<noteq> int c" for r c rest
    using that by (simp add: predict_unfitted [OF assms] preprocess_product_error)
  moreover have "product_error \<noteq> not_fitted_error"
    by (simp add: product_error_def not_fitted_error_def)
  moreover have "predict env self X = Inl not_fitted_error \<longleftrightarrow> (\<exists>T. preprocess self X None = Inr T)"
    using preprocess_not_NotFitted [of self X None]
    by (auto simp: predict_unfitted [OF assms] split: sum.splits)
  ultimately show ?thesis by blast
qed

theorem predict_checks_shape_first_witness:
  "cnn_is_fitted cnn_2_1 = None \<and>
   predict trivial_framework cnn_2_1 \<lparr>shape = [2, 3], items = replicate 6 (Some 0)\<rparr> = Inl product_error \<and>
   (predict trivial_framework cnn_2_1 \<lparr>shape = [1, 2], items = [Some 1, Some 2]\<rparr> = Inl not_fitted_error
     \<longleftrightarrow> (\<exists>T. preprocess cnn_2_1 \<lparr>shape = [1, 2], items = [Some 1, Some 2]\<rparr> None = Inr T))"
proof -
  have u: "cnn_is_fitted cnn_2_1 = None" by (simp add: cnn_2_1_def)
  have "predict trivial_framework cnn_2_1 \<lparr>shape = [2, 3], items = replicate 6 (Some 0)\<rparr> = Inl product_error"
    using predict_checks_shape_first [OF u, of "\<lparr>shape = [2, 3], items = replicate 6 (Some 0)\<rparr>" trivial_framework]
    by (simp add: cnn_2_1_def)
  then show ?thesis
    using u predict_checks_shape_first [OF u, of "\<lparr>shape = [1, 2], items = [Some 1, Some 2]\<rparr>" trivial_framework]
    by simp
qed


subsection \<open>C3: the layout of the tensor\<close>

text \<open>
  C3 says that for every matrix with \<^verbatim>\<open>n_nodes * n_channels\<close> columns the reshape of the
  preprocessing produces an array of shape (samples, nodes, channels). The constructor
  accepts negative integers: with \<^verbatim>\<open>n_nodes = -2\<close> and \<^verbatim>\<open>n_channels = -1\<close> a matrix of two
  columns passes the check of the product, and \<^verbatim>\<open>reshape\<close> raises ValueError.
\<close>

theorem to_tensor_layout_counterexample:
  "CNN_init True (default_args (PyInt (- 2)) (PyInt (- 1)))
     = Inr (cnn_2_1\<lparr>n_nodes := IntVal (- 2), n_channels := IntVal (- 1)\<rparr>) \<and>
   int_of (n_nodes (cnn_2_1\<lparr>n_nodes := IntVal (- 2), n_channels := IntVal (- 1)\<rparr>)) *
   int_of (n_channels (cnn_2_1\<lparr>n_nodes := IntVal (- 2), n_channels := IntVal (- 1)\<rparr>)) = 2 \<and>
   to_tensor (cnn_2_1\<lparr>n_nodes := IntVal (- 2), n_channels := IntVal (- 1)\<rparr>)
     \<lparr>shape = [1, 2], items = [Some 1, Some 2]\<rparr> = Inl unknown_dimension \<and>
   preprocess (cnn_2_1\<lparr>n_nodes := IntVal (- 2), n_channels := IntVal (- 1)\<rparr>)
     \<lparr>shape = [1, 2], items = [Some 1, Some 2]\<rparr> None = Inl unknown_dimension"
proof -
  have "CNN_init True (default_args (PyInt (- 2)) (PyInt (- 1)))
     = Inr (cnn_2_1\<lparr>n_nodes := IntVal (- 2), n_channels := IntVal (- 1)\<rparr>)"
    by (simp add: CNN_init_def and_then_def check_keras_def default_args_def as_int_def
        as_str_def as_float_def cnn_2_1_def)
  moreover have "to_tensor (cnn_2_1\<lparr>n_nodes := IntVal (- 2), n_channels := IntVal (- 1)\<rparr>)
     \<lparr>shape = [1, 2], items = [Some 1, Some 2]\<rparr> = Inl unknown_dimension"
    by code_simp
  moreover have "preprocess (cnn_2_1\<lparr>n_nodes := IntVal (- 2), n_channels := IntVal (- 1)\<rparr>)
     \<lparr>shape = [1, 2], items = [Some 1, Some 2]\<rparr> None = Inl unknown_dimension"
    by code_simp
  ultimately show ?thesis by simp
qed

text \<open>
  C3, amended: when \<^verbatim>\<open>n_nodes\<close> and \<^verbatim>\<open>n_channels\<close> are non-negative integers and not
  booleans, the reshape of the preprocessing turns a matrix of \<open>r\<close> rows and
  \<^verbatim>\<open>n_nodes * n_channels\<close> columns into an array of shape (samples, nodes, channels)
  whose element at (sample \<open>i\<close>, node \<open>n\<close>, channel \<open>ch\<close>) is the element of the matrix at
  row \<open>i\<close> and column \<open>ch * n_nodes + n\<close>. The first part is the reshape step itself, on
  the matrix that reaches it; the second part is the whole of \<^verbatim>\<open>_preprocess\<close> on a matrix
  without missing entries, which imputation leaves as it is.
\<close>

theorem to_tensor_layout:
  assumes "shape X = [r, c]" and "wf_array X"
    and "int_of (n_nodes self) * int_of (n_channels self) = int c"
    and "0 \<le> int_of (n_nodes self)" and "0 \<le> int_of (n_channels self)"
    and "\<not> is_bool (n_nodes self)" and "\<not> is_bool (n_channels self)"
  shows "(\<exists>T. to_tensor self X = Inr T \<and>
              shape T = [r, nat (int_of (n_nodes self)), nat (int_of (n_channels self))] \<and>
              (\<forall>i<r. \<forall>n<nat (int_of (n_nodes self)). \<forall>ch<nat (int_of (n_channels self)).
                 at3 T i n ch = at2 X i (ch * nat (int_of (n_nodes self)) + n)))
       \<and> (0 < r \<and> 0 < c \<and> strategy self \<in> {''mean'', ''median''} \<and>
            (\<forall>v \<in> set (items X). \<not> isnan v) \<longrightarrow>
          (\<exists>T. preprocess self X None = Inr (T, None) \<and>
              shape T = [r, nat (int_of (n_nodes self)), nat (int_of (n_channels self))] \<and>
              (\<forall>i<r. \<forall>n<nat (int_of (n_nodes self)). \<forall>ch<nat (int_of (n_channels self)).
                 at3 T i n ch = at2 X i (ch * nat (int_of (n_nodes self)) + n))))"
proof (intro conjI impI)
  show "\<exists>T. to_tensor self X = Inr T \<and>
              shape T = [r, nat (int_of (n_nodes self)), nat (int_of (n_channels self))] \<and>
              (\<forall>i<r. \<forall>n<nat (int_of (n_nodes self)). \<forall>ch<nat (int_of (n_channels self)).
                 at3 T i n ch = at2 X i (ch * nat (int_of (n_nodes self)) + n))"
    using to_tensor_Inr [OF assms] by blast
next
  let ?N = "nat (int_of (n_nodes self))" and ?C = "nat (int_of (n_channels self))"
  assume h: "0 < r \<and> 0 < c \<and> strategy self \<in> {''mean'', ''median''} \<and>
            (\<forall>v \<in> set (items X). \<not> isnan v)"
  have pos: "0 < int_of (n_nodes self)" "0 < int_of (n_channels self)"
    using pos_factors [OF assms(3) _ assms(4,5)] h by simp_all
  have obs: "\<not> isnan (at2 X i j)" if "i < r" "j < c" for i j
    using at2_in_items [OF assms(1,2) that] h by blast
  then have cols: "\<forall>j<c. \<exists>i<r. \<not> isnan (at2 X i j)" using h by blast
  from preprocess_None_success [OF assms(1-3) pos _ cols assms(6,7)] h
  obtain T where T: "preprocess self X None = Inr (T, None)" "shape T = [r, ?N, ?C]"
    "\<forall>i<r. \<forall>n<?N. \<forall>ch<?C. at3 T i n ch = imputed (strategy self) X i (ch * ?N + n)"
    by blast
  have cn: "c = ?C * ?N" using assms(3-5) by (rule nat_prod_eq)
  have "\<forall>i<r. \<forall>n<?N. \<forall>ch<?C. at3 T i n ch = at2 X i (ch * ?N + n)"
  proof (intro allI impI)
    fix i n ch assume that: "i < r" "n < ?N" "ch < ?C"
    then have "ch * ?N + n < c" unfolding cn by (simp add: flat_index_less)
    then show "at3 T i n ch = at2 X i (ch * ?N + n)"
      using that T(3) obs by (simp add: imputed_observed)
  qed
  with T(1,2) show "\<exists>T. preprocess self X None = Inr (T, None) \<and> shape T = [r, ?N, ?C] \<and>
              (\<forall>i<r. \<forall>n<?N. \<forall>ch<?C. at3 T i n ch = at2 X i (ch * ?N + n))"
    by blast
qed

theorem to_tensor_layout_witness:
  "preprocess (cnn_2_1\<lparr>n_nodes := IntVal 3, n_channels := IntVal 2\<rparr>)
     \<lparr>shape = [1, 6], items = [Some 10, Some 11, Some 12, Some 13, Some 14, Some 15]\<rparr> None
   = Inr (\<lparr>shape = [1, 3, 2],
            items = [Some 10, Some 13, Some 11, Some 14, Some 12, Some 15]\<rparr>, None)
   \<and> (\<exists>T. to_tensor (cnn_2_1\<lparr>n_nodes := IntVal 3, n_channels := IntVal 2\<rparr>)
          \<lparr>shape = [1, 6], items = [Some 10, Some 11, Some 12, Some 13, Some 14, Some 15]\<rparr>
          = Inr T \<and> shape T = [1, 3, 2] \<and> at3 T 0 1 1 = Some 14)"
proof -
  let ?c = "cnn_2_1\<lparr>n_nodes := IntVal 3, n_channels := IntVal 2\<rparr>"
  let ?X = "\<lparr>shape = [1, 6], items = [Some 10, Some 11, Some 12, Some 13, Some 14, Some (15::real)]\<rparr>"
  have a: "shape ?X = [1, 6]" "wf_array ?X" "int_of (n_nodes ?c) * int_of (n_channels ?c) = int 6"
    "0 \<le> int_of (n_nodes ?c)" "0 \<le> int_of (n_channels ?c)"
    "\<not> is_bool (n_nodes ?c)" "\<not> is_bool (n_channels ?c)"
    by (simp_all add: wf_array_def cnn_2_1_def)
  from to_tensor_layout [OF a, THEN conjunct1]
  obtain T where T1: "to_tensor ?c ?X = Inr T"
    and T2: "shape T = [1, nat (int_of (n_nodes ?c)), nat (int_of (n_channels ?c))]"
    and T3: "\<forall>i<1. \<forall>n<nat (int_of (n_nodes ?c)). \<forall>ch<nat (int_of (n_channels ?c)).
               at3 T i n ch = at2 ?X i (ch * nat (int_of (n_nodes ?c)) + n)"
    by (elim exE conjE)
  have "at3 T 0 1 1 = at2 ?X 0 (1 * nat (int_of (n_nodes ?c)) + 1)"
    using T3 by (simp add: cnn_2_1_def)
  then have e: "at3 T 0 1 1 = Some 14" by (simp add: at2_def cnn_2_1_def)
  have sh: "shape T = [1, 3, 2]" using T2 by (simp add: cnn_2_1_def)
  have p: "preprocess ?c ?X None
     = Inr (\<lparr>shape = [1, 3, 2], items = [Some 10, Some 13, Some 11, Some 14, Some 12, Some 15]\<rparr>, None)"
    by code_simp
  show ?thesis by (intro conjI exI [of _ T] p T1 sh e)
qed

subsection \<open>C1: the shape check\<close>




text \<open>
  The other conditions are needed as well. The constructor accepts negative integers,
  and two negative dimensions whose product is the number of columns pass the check and
  fail in \<^verbatim>\<open>reshape\<close>. It accepts a bool for an integer and stores it as it is:
  \<^verbatim>\<open>CNN(True, 2)\<close> passes the check on a matrix of two columns, and \<^verbatim>\<open>reshape\<close> raises
  TypeError for the bool in the shape. It accepts the strategy \<^verbatim>\<open>knn\<close>, which
  \<^verbatim>\<open>SimpleImputer\<close> rejects.
\<close>

lemma preprocess_negative_dimensions:
  "preprocess (cnn_2_1\<lparr>n_nodes := IntVal (- 1), n_channels := IntVal (- 2)\<rparr>)
     \<lparr>shape = [1, 2], items = [Some 1, Some 2]\<rparr> None = Inl unknown_dimension"
  by code_simp

lemma preprocess_bool_dimension:
  "CNN_init True (default_args (PyBool True) (PyInt 2))
     = Inr (cnn_2_1\<lparr>n_nodes := BoolVal True, n_channels := IntVal 2\<rparr>) \<and>
   preprocess (cnn_2_1\<lparr>n_nodes := BoolVal True, n_channels := IntVal 2\<rparr>)
     \<lparr>shape = [1, 2], items = [Some 1, Some 2]\<rparr> None = Inl not_an_integer"
proof -
  have "CNN_init True (default_args (PyBool True) (PyInt 2))
     = Inr (cnn_2_1\<lparr>n_nodes := BoolVal True, n_channels := IntVal 2\<rparr>)"
    by (simp add: CNN_init_def and_then_def check_keras_def default_args_def as_int_def
        as_str_def as_float_def cnn_2_1_def)
  moreover have "preprocess (cnn_2_1\<lparr>n_nodes := BoolVal True, n_channels := IntVal 2\<rparr>)
     \<lparr>shape = [1, 2], items = [Some 1, Some 2]\<rparr> None = Inl not_an_integer"
    by code_simp
  ultimately show ?thesis by simp
qed

lemma preprocess_knn:
  "preprocess (cnn_2_1\<lparr>strategy := ''knn''\<rparr>)
     \<lparr>shape = [1, 2], items = [Some 1, Some 2]\<rparr> None =
   Inl (Raise ValueError ''The strategy parameter of SimpleImputer is invalid'')"
  by code_simp

subsection \<open>C4: rows with a missing target\<close>

text \<open>
  C4: in \<^verbatim>\<open>fit\<close>, the rows of \<open>X\<close> whose target is missing are removed from \<open>X\<close> and
  from \<open>y\<close> before the imputer is fitted. The matrix \<open>X1\<close> that is left holds the rows
  with an observed target, in their order; preprocessing and fitting \<open>(X, y)\<close> is
  preprocessing and fitting \<open>(X1, y\<close> without its missing entries\<open>)\<close>, so a removed row has
  no effect; and whenever the preprocessing returns, every entry of the result is an entry
  of \<open>X1\<close> or the statistic of a column of \<open>X1\<close>.
\<close>

theorem fit_removes_rows_without_target:
  assumes "shape X = [r, c]" and "wf_array X" and "length y = r"
  shows "\<exists>X1. take_rows (not_nan_mask y) X = Inr X1 \<and>
           shape X1 = [length (filter (\<lambda>v. \<not> isnan v) y), c] \<and>
           set (kept_rows (not_nan_mask y)) = {i. i < r \<and> \<not> isnan (y ! i)} \<and>
           (\<forall>p<length (kept_rows (not_nan_mask y)). \<forall>j<c.
              at2 X1 p j = at2 X (kept_rows (not_nan_mask y) ! p) j) \<and>
           preprocess self X (Some y) = preprocess self X1 (Some (filter (\<lambda>v. \<not> isnan v) y)) \<and>
           fit env self X y = fit env self X1 (filter (\<lambda>v. \<not> isnan v) y) \<and>
           (\<forall>T y'. preprocess self X (Some y) = Inr (T, y') \<longrightarrow>
              y' = Some (filter (\<lambda>v. \<not> isnan v) y) \<and>
              shape T = [length (filter (\<lambda>v. \<not> isnan v) y),
                         nat (int_of (n_nodes self)), nat (int_of (n_channels self))] \<and>
              (\<forall>i<length (filter (\<lambda>v. \<not> isnan v) y). \<forall>n<nat (int_of (n_nodes self)).
                 \<forall>ch<nat (int_of (n_channels self)).
                 at3 T i n ch = imputed (strategy self) X1 i (ch * nat (int_of (n_nodes self)) + n)))"
proof -
  let ?y1 = "filter (\<lambda>v. \<not> isnan v) y"
  have "length (not_nan_mask y) = r" using assms(3) by (simp add: not_nan_mask_def)
  from take_rows_Inr [OF assms(1,2) this]
  obtain X1 where X1: "take_rows (not_nan_mask y) X = Inr X1" by (elim exE conjE)
  note sh1 = take_rows_shape(1) [OF assms X1] and wf1 = take_rows_shape(2) [OF assms X1]
    and el1 = take_rows_shape(3) [OF assms X1]
  have ks: "set (kept_rows (not_nan_mask y)) = {i. i < r \<and> \<not> isnan (y ! i)}"
    using assms(3) by (auto simp: kept_rows_set not_nan_mask_def)
  have res: "\<forall>T y'. preprocess self X (Some y) = Inr (T, y') \<longrightarrow>
              y' = Some ?y1 \<and>
              shape T = [length ?y1, nat (int_of (n_nodes self)), nat (int_of (n_channels self))] \<and>
              (\<forall>i<length ?y1. \<forall>n<nat (int_of (n_nodes self)). \<forall>ch<nat (int_of (n_channels self)).
                 at3 T i n ch = imputed (strategy self) X1 i (ch * nat (int_of (n_nodes self)) + n))"
  proof (intro allI impI)
    fix T y' assume p: "preprocess self X (Some y) = Inr (T, y')"
    note a = preprocess_Some_Inr [OF assms X1 p]
    note b = preprocess_None_Inr [OF sh1 wf1 a [THEN conjunct2]]
    show "y' = Some ?y1 \<and>
              shape T = [length ?y1, nat (int_of (n_nodes self)), nat (int_of (n_channels self))] \<and>
              (\<forall>i<length ?y1. \<forall>n<nat (int_of (n_nodes self)). \<forall>ch<nat (int_of (n_channels self)).
                 at3 T i n ch = imputed (strategy self) X1 i (ch * nat (int_of (n_nodes self)) + n))"
      using a b by simp
  qed
  show ?thesis
    by (intro exI [of _ X1] conjI X1 sh1 ks el1 preprocess_Some_masked [OF assms X1]
        fit_masked [OF assms X1] res)
qed

theorem fit_removes_rows_without_target_witness:
  "length [Some 1, None, Some (3::real)] = 3 \<and>
   preprocess cnn_2_1
     \<lparr>shape = [3, 2], items = [None, Some 1, Some 7, Some 8, Some 5, Some 2]\<rparr>
     (Some [Some 1, None, Some 3])
   = preprocess cnn_2_1 \<lparr>shape = [2, 2], items = [None, Some 1, Some 5, Some 2]\<rparr>
       (Some [Some 1, Some 3]) \<and>
   preprocess cnn_2_1
     \<lparr>shape = [3, 2], items = [None, Some 1, Some 7, Some 8, Some 5, Some 2]\<rparr>
     (Some [Some 1, None, Some 3])
   = Inr (\<lparr>shape = [2, 2, 1], items = [Some 5, Some 1, Some 5, Some 2]\<rparr>,
          Some [Some 1, Some 3])"
proof -
  let ?X = "\<lparr>shape = [3, 2], items = [None, Some 1, Some 7, Some 8, Some 5, Some (2::real)]\<rparr>"
  let ?y = "[Some 1, None, Some (3::real)]"
  have a: "shape ?X = [3, 2]" "wf_array ?X" "length ?y = 3" by (simp_all add: wf_array_def)
  from fit_removes_rows_without_target [OF a, of cnn_2_1 trivial_framework]
  obtain X1 where X1: "take_rows (not_nan_mask ?y) ?X = Inr X1"
    and eq: "preprocess cnn_2_1 ?X (Some ?y) =
             preprocess cnn_2_1 X1 (Some (filter (\<lambda>v. \<not> isnan v) ?y))"
    by (elim exE conjE)
  have "take_rows (not_nan_mask ?y) ?X =
        Inr \<lparr>shape = [2, 2], items = [None, Some 1, Some 5, Some 2]\<rparr>"
    by code_simp
  with X1 have x: "X1 = \<lparr>shape = [2, 2], items = [None, Some 1, Some 5, Some 2]\<rparr>" by simp
  have f: "filter (\<lambda>v. \<not> isnan v) ?y = [Some 1, Some 3]" by (simp add: isnan_def)
  have v: "preprocess cnn_2_1 \<lparr>shape = [2, 2], items = [None, Some 1, Some 5, Some 2]\<rparr>
             (Some [Some 1, Some 3])
           = Inr (\<lparr>shape = [2, 2, 1], items = [Some 5, Some 1, Some 5, Some 2]\<rparr>,
                  Some [Some 1, Some 3])"
    by code_simp
  have e: "preprocess cnn_2_1 ?X (Some ?y) =
           preprocess cnn_2_1 \<lparr>shape = [2, 2], items = [None, Some 1, Some 5, Some 2]\<rparr>
             (Some [Some 1, Some 3])"
    using eq unfolding x f .
  show ?thesis using e v by simp
qed

subsection \<open>C10: imputation in predict\<close>

text \<open>
  C10: every call of the preprocessing fits a new imputer on the matrix it is given. The
  preprocessing reads no fitted state, so after a successful \<^verbatim>\<open>fit\<close> on any training data
  \<^verbatim>\<open>predict\<close> preprocesses its input as the unfitted estimator would; and whenever the
  preprocessing of a batch \<open>X\<close> returns, each missing entry has been replaced by the
  statistic of its column in \<open>X\<close> itself.
\<close>

theorem predict_imputes_from_own_batch:
  "(\<forall>m f. preprocess (self\<lparr>cnn_model := m, cnn_is_fitted := f\<rparr>) X y = preprocess self X y)
   \<and> (\<forall>Xt yt self'. fit env self Xt yt = Inr self' \<longrightarrow>
         preprocess self' X None = preprocess self X None \<and>
         (\<exists>m. cnn_model self' = Some m \<and>
            predict env self' X =
              and_then (preprocess self X None) (\<lambda>(T, _).
                and_then (model_predict env m T) (\<lambda>pred. Inr (squeeze pred)))))
   \<and> (\<forall>r c T y'. shape X = [r, c] \<and> wf_array X \<and> preprocess self X None = Inr (T, y') \<longrightarrow>
         (\<forall>j<c. \<not> isnan (statistic (strategy self) (column X j))) \<and>
         (\<forall>i<r. \<forall>n<nat (int_of (n_nodes self)). \<forall>ch<nat (int_of (n_channels self)).
            at3 T i n ch = imputed (strategy self) X i (ch * nat (int_of (n_nodes self)) + n)))"
proof (intro conjI allI impI)
  fix m f show "preprocess (self\<lparr>cnn_model := m, cnn_is_fitted := f\<rparr>) X y = preprocess self X y"
    by (rule preprocess_state_independent)
next
  fix Xt yt self' assume "fit env self Xt yt = Inr self'"
  then obtain m where m: "self' = self\<lparr>cnn_model := Some m, cnn_is_fitted := Some True\<rparr>"
    using fit_Inr_state by blast
  show "preprocess self' X None = preprocess self X None"
    unfolding m by (rule preprocess_state_independent)
  have "predict env self' X =
              and_then (preprocess self X None) (\<lambda>(T, _).
                and_then (model_predict env m T) (\<lambda>pred. Inr (squeeze pred)))"
    unfolding predict_def m preprocess_state_independent
    by (simp add: check_is_fitted_def and_then_def split: sum.splits prod.splits)
  then show "\<exists>m. cnn_model self' = Some m \<and>
            predict env self' X =
              and_then (preprocess self X None) (\<lambda>(T, _).
                and_then (model_predict env m T) (\<lambda>pred. Inr (squeeze pred)))"
    using m by (intro exI [of _ m]) simp
next
  fix r c T y' j
  assume h: "shape X = [r, c] \<and> wf_array X \<and> preprocess self X None = Inr (T, y')"
  note b = preprocess_None_Inr [OF h [THEN conjunct1] h [THEN conjunct2, THEN conjunct1]
      h [THEN conjunct2, THEN conjunct2]]
  assume "j < c"
  with b show "\<not> isnan (statistic (strategy self) (column X j))" by simp
next
  fix r c T y' i n ch
  assume h: "shape X = [r, c] \<and> wf_array X \<and> preprocess self X None = Inr (T, y')"
  note b = preprocess_None_Inr [OF h [THEN conjunct1] h [THEN conjunct2, THEN conjunct1]
      h [THEN conjunct2, THEN conjunct2]]
  assume "i < r" "n < nat (int_of (n_nodes self))" "ch < nat (int_of (n_channels self))"
  with b show "at3 T i n ch = imputed (strategy self) X i (ch * nat (int_of (n_nodes self)) + n)"
    by simp
qed

theorem predict_imputes_from_own_batch_witness:
  "fit trivial_framework cnn_2_1 \<lparr>shape = [2, 2], items = [Some 1, Some 2, Some 3, Some 4]\<rparr>
     [Some 1, Some 2] = Inr (cnn_2_1\<lparr>cnn_model := Some (), cnn_is_fitted := Some True\<rparr>) \<and>
   preprocess (cnn_2_1\<lparr>cnn_model := Some (), cnn_is_fitted := Some True\<rparr>)
     \<lparr>shape = [2, 2], items = [None, Some 10, Some 20, Some 30]\<rparr> None
   = Inr (\<lparr>shape = [2, 2, 1], items = [Some 20, Some 10, Some 20, Some 30]\<rparr>, None)"
proof -
  let ?Xt = "\<lparr>shape = [2, 2], items = [Some 1, Some 2, Some 3, Some (4::real)]\<rparr>"
  let ?X = "\<lparr>shape = [2, 2], items = [None, Some 10, Some 20, Some (30::real)]\<rparr>"
  let ?c = "cnn_2_1\<lparr>cnn_model := Some (), cnn_is_fitted := Some True\<rparr>"
  have f: "fit trivial_framework cnn_2_1 ?Xt [Some 1, Some 2] = Inr ?c"
    by code_simp
  from predict_imputes_from_own_batch [of cnn_2_1 ?X None trivial_framework,
      THEN conjunct2, THEN conjunct1, rule_format, OF f, THEN conjunct1]
  have "preprocess ?c ?X None = preprocess cnn_2_1 ?X None" .
  moreover have "preprocess cnn_2_1 ?X None
     = Inr (\<lparr>shape = [2, 2, 1], items = [Some 20, Some 10, Some 20, Some 30]\<rparr>, None)"
    by code_simp
  ultimately show ?thesis using f by simp
qed


subsection \<open>C8: the selection of the tuner\<close>

text \<open>
  C8 says that every string other than \<^verbatim>\<open>hyperband\<close>, \<^verbatim>\<open>bayesian\<close> and \<^verbatim>\<open>random\<close> is
  rejected with a ValueError at construction or at the start of \<^verbatim>\<open>fit\<close>. The constructor
  accepts every string, and \<^verbatim>\<open>fit\<close> looks at the tuner only after it has preprocessed and
  split its input: with the tuner \<^verbatim>\<open>grid\<close> and a one-dimensional \<open>X\<close> the constructor
  returns an estimator and \<^verbatim>\<open>fit\<close> raises the IndexError of \<^verbatim>\<open>X.shape[1]\<close>.
\<close>

theorem fit_selects_tuner_counterexample:
  "CNN_init True ((default_args (PyInt 2) (PyInt 1))\<lparr>arg_tuner := PyStr ''grid''\<rparr>)
     = Inr (cnn_2_1\<lparr>tuner := PyStr ''grid''\<rparr>) \<and>
   fit trivial_framework (cnn_2_1\<lparr>tuner := PyStr ''grid''\<rparr>)
     \<lparr>shape = [2], items = [Some 1, Some 2]\<rparr> [Some 1, Some 2]
     = Inl (Raise IndexError ''tuple index out of range'')"
  by (simp add: CNN_init_def and_then_def check_keras_def default_args_def as_int_def
      as_str_def as_float_def cnn_2_1_def fit_def preprocess_def)

text \<open>
  C8, amended: an estimator that the constructor returned has \<^verbatim>\<open>tuner\<close> equal to
  \<^verbatim>\<open>None\<close> or a string; the constructor rejects no string. \<^verbatim>\<open>fit\<close> decides on the tuner
  once its input is preprocessed and split and the pass-through options repeat no
  parameter of \<^verbatim>\<open>ModelBuilder\<close>. With \<^verbatim>\<open>None\<close> it compiles the fixed architecture and
  trains it. With a string other than \<^verbatim>\<open>hyperband\<close>, \<^verbatim>\<open>bayesian\<close> and \<^verbatim>\<open>random\<close> it
  raises the ValueError of \<^verbatim>\<open>_get_tuner\<close>, whatever the frameworks would do: no model is
  built or trained. With one of the three strings, and options that repeat no keyword of
  the tuner's constructor call, it searches with a tuner of the corresponding class, built
  from the estimator's layer count, the input shape, the objective, the budget of 10 and
  the options, builds the best model and trains it. With a string outside the three
  \<^verbatim>\<open>fit\<close> never succeeds, on any input.
\<close>

theorem fit_selects_tuner:
  assumes "CNN_init (HAS_KERAS env) a = Inr self"
  shows "(tuner self = PyNone \<or> (\<exists>s. tuner self = PyStr s))
     \<and> (\<forall>s. \<exists>c :: 'm CNN.
           CNN_init (HAS_KERAS env) (a\<lparr>arg_tuner := PyStr s\<rparr>) = Inr c \<and> tuner c = PyStr s)
     \<and> (\<forall>s. tuner self = PyStr s \<and> s \<notin> {''hyperband'', ''bayesian'', ''random''} \<longrightarrow>
           (\<exists>e. fit env self X y = Inl e))
     \<and> (\<forall>X1 y1 Xtr Xte ytr yte.
           preprocess self X (Some y) = Inr (X1, Some y1) \<and>
           train_test_split env X1 y1 (test_size self) (random_state self)
             = Inr (Xtr, Xte, ytr, yte) \<and>
           \<not> repeated_keyword
               [''class_type'', ''input_shape'', ''layers'', ''max_epochs'', ''X_test'',
                ''y_test'', ''batch_size'', ''directory'', ''project_name'']
               (tuner_kwargs self) \<longrightarrow>
           (tuner self = PyNone \<longrightarrow>
              fit env self X y =
                and_then
                  (sequential_compile env (tl (shape Xtr))
                     [Dense 128 ''relu'',
                      Conv1D 24 2 ''relu'', MaxPool1D 2 ''same'',
                      Conv1D 32 2 ''relu'', MaxPool1D 2 ''same'',
                      Conv1D 64 3 ''relu'', MaxPool1D 2 ''same'',
                      Conv1D 128 4 ''relu'', MaxPool1D 2 ''same'',
                      Conv1D 256 4 ''relu'', MaxPool1D 2 ''same'',
                      Dropout (25 / 100), Flatten,
                      Dense 128 ''relu'', Dropout (25 / 100),
                      Dense 64 ''relu'', Dense 1 ''linear''])
                  (\<lambda>model.
                and_then
                  (fit_with_checkpoint env model Xtr ytr (max_epochs self) (batch_size self)
                     Xte yte)
                  (\<lambda>m. Inr (self\<lparr>cnn_model := Some m, cnn_is_fitted := Some True\<rparr>)))) \<and>
           (\<forall>s. tuner self = PyStr s \<and> s \<notin> {''hyperband'', ''bayesian'', ''random''} \<longrightarrow>
              fit env self X y =
                Inl (Raise ValueError
                  ''tuner parameter expects hyperband, bayesian, or random'')) \<and>
           (\<forall>s cls. tuner self = PyStr s \<and>
                (s, cls) \<in> {(''hyperband'', Hyperband), (''bayesian'', BayesianOptimization),
                             (''random'', RandomSearch)} \<and>
                \<not> repeated_keyword
                    [''hypermodel'', ''objective'',
                     if cls = Hyperband then ''max_epochs'' else ''max_trials'',
                     ''overwrite'', ''project_name'', ''directory'']
                    (tuner_kwargs self) \<longrightarrow>
              fit env self X y =
                (let t = \<lparr>tuner_class = cls, hypermodel = (layers self, tl (shape Xtr)),
                           objective = ''mean_squared_error'', budget = 10, overwrite = True,
                           tuner_project_name = project_name self,
                           tuner_directory = directory self,
                           tuner_options = tuner_kwargs self\<rparr>
                 in and_then (tuner_search env t Xtr ytr) (\<lambda>best_hps.
                    and_then (hypermodel_build env t best_hps) (\<lambda>model.
                    and_then
                      (fit_with_checkpoint env model Xtr ytr (max_epochs self)
                         (batch_size self) Xte yte)
                      (\<lambda>m. Inr (self\<lparr>cnn_model := Some m, cnn_is_fitted := Some True\<rparr>)))))))"
proof (intro conjI allI impI)
  show "tuner self = PyNone \<or> (\<exists>s. tuner self = PyStr s)"
    using assms by (rule CNN_init_tuner)
next
  fix s show "\<exists>c :: 'm CNN.
           CNN_init (HAS_KERAS env) (a\<lparr>arg_tuner := PyStr s\<rparr>) = Inr c \<and> tuner c = PyStr s"
    using assms by (rule CNN_init_any_tuner)
next
  fix s assume "tuner self = PyStr s \<and> s \<notin> {''hyperband'', ''bayesian'', ''random''}"
  then show "\<exists>e. fit env self X y = Inl e"
    using fit_invalid_tuner [of self s env X y] by simp
next
  fix X1 y1 Xtr Xte ytr yte
  assume h: "preprocess self X (Some y) = Inr (X1, Some y1) \<and>
           train_test_split env X1 y1 (test_size self) (random_state self)
             = Inr (Xtr, Xte, ytr, yte) \<and>
           \<not> repeated_keyword
               [''class_type'', ''input_shape'', ''layers'', ''max_epochs'', ''X_test'',
                ''y_test'', ''batch_size'', ''directory'', ''project_name'']
               (tuner_kwargs self)"
  assume "tuner self = PyNone"
  then show "fit env self X y =
                and_then
                  (sequential_compile env (tl (shape Xtr))
                     [Dense 128 ''relu'',
                      Conv1D 24 2 ''relu'', MaxPool1D 2 ''same'',
                      Conv1D 32 2 ''relu'', MaxPool1D 2 ''same'',
                      Conv1D 64 3 ''relu'', MaxPool1D 2 ''same'',
                      Conv1D 128 4 ''relu'', MaxPool1D 2 ''same'',
                      Conv1D 256 4 ''relu'', MaxPool1D 2 ''same'',
                      Dropout (25 / 100), Flatten,
                      Dense 128 ''relu'', Dropout (25 / 100),
                      Dense 64 ''relu'', Dense 1 ''linear''])
                  (\<lambda>model.
                and_then
                  (fit_with_checkpoint env model Xtr ytr (max_epochs self) (batch_size self)
                     Xte yte)
                  (\<lambda>m. Inr (self\<lparr>cnn_model := Some m, cnn_is_fitted := Some True\<rparr>)))"
    using h CNN_init_keras [OF assms]
    by (simp add: fit_def ModelBuilder_init_def ModelBuilder_params_def check_keras_def
        build_basic_model_def get_best_weights_def basic_layers_def and_then_def
        split: sum.splits)
next
  fix X1 y1 Xtr Xte ytr yte s
  assume h: "preprocess self X (Some y) = Inr (X1, Some y1) \<and>
           train_test_split env X1 y1 (test_size self) (random_state self)
             = Inr (Xtr, Xte, ytr, yte) \<and>
           \<not> repeated_keyword
               [''class_type'', ''input_shape'', ''layers'', ''max_epochs'', ''X_test'',
                ''y_test'', ''batch_size'', ''directory'', ''project_name'']
               (tuner_kwargs self)"
  assume "tuner self = PyStr s \<and> s \<notin> {''hyperband'', ''bayesian'', ''random''}"
  then show "fit env self X y =
                Inl (Raise ValueError
                  ''tuner parameter expects hyperband, bayesian, or random'')"
    using h CNN_init_keras [OF assms]
    by (simp add: fit_def ModelBuilder_init_def ModelBuilder_params_def check_keras_def
        build_tuned_model_def get_tuner_def tuner_error_def and_then_def)
next
  fix X1 y1 Xtr Xte ytr yte s cls
  assume h: "preprocess self X (Some y) = Inr (X1, Some y1) \<and>
           train_test_split env X1 y1 (test_size self) (random_state self)
             = Inr (Xtr, Xte, ytr, yte) \<and>
           \<not> repeated_keyword
               [''class_type'', ''input_shape'', ''layers'', ''max_epochs'', ''X_test'',
                ''y_test'', ''batch_size'', ''directory'', ''project_name'']
               (tuner_kwargs self)"
  assume t: "tuner self = PyStr s \<and>
                (s, cls) \<in> {(''hyperband'', Hyperband), (''bayesian'', BayesianOptimization),
                             (''random'', RandomSearch)} \<and>
                \<not> repeated_keyword
                    [''hypermodel'', ''objective'',
                     if cls = Hyperband then ''max_epochs'' else ''max_trials'',
                     ''overwrite'', ''project_name'', ''directory'']
                    (tuner_kwargs self)"
  define B where "B = \<lparr>class_type = tuner self, mb_input_shape = tl (shape Xtr),
      mb_layers = layers self, mb_max_epochs = max_epochs self, X_test = Xte, y_test = yte,
      mb_batch_size = batch_size self, mb_directory = directory self,
      mb_project_name = project_name self, mb_tuner_kwargs = tuner_kwargs self\<rparr>"
  define tn where "tn = \<lparr>tuner_class = cls, hypermodel = (layers self, tl (shape Xtr)),
                           objective = ''mean_squared_error'', budget = 10, overwrite = True,
                           tuner_project_name = project_name self,
                           tuner_directory = directory self,
                           tuner_options = tuner_kwargs self\<rparr>"
  have mb: "ModelBuilder_init (HAS_KERAS env) (tuner self) (tl (shape Xtr)) (layers self)
                  (max_epochs self) Xte yte (batch_size self) (directory self)
                  (project_name self) (tuner_kwargs self) = Inr B"
    using h CNN_init_keras [OF assms]
    by (simp add: ModelBuilder_init_def ModelBuilder_params_def check_keras_def and_then_def
        B_def)
  have nt: "new_tuner B cls = Inr tn"
    using t by (simp add: new_tuner_def tuner_keywords_def B_def tn_def)
  have gt: "get_tuner B = Inr tn"
    using t nt by (auto simp: get_tuner_def B_def)
  have "fit env self X y =
        and_then (build_tuned_model env B Xtr ytr)
          (\<lambda>m. Inr (self\<lparr>cnn_model := Some m, cnn_is_fitted := Some True\<rparr>))"
    using h mb t by (simp add: fit_def and_then_def)
  also have "\<dots> = and_then (tuner_search env tn Xtr ytr) (\<lambda>best_hps.
                    and_then (hypermodel_build env tn best_hps) (\<lambda>model.
                    and_then
                      (fit_with_checkpoint env model Xtr ytr (max_epochs self)
                         (batch_size self) Xte yte)
                      (\<lambda>m. Inr (self\<lparr>cnn_model := Some m, cnn_is_fitted := Some True\<rparr>))))"
    unfolding build_tuned_model_def gt
    by (simp add: get_best_weights_def and_then_def B_def split: sum.splits)
  finally show "fit env self X y =
                (let t = \<lparr>tuner_class = cls, hypermodel = (layers self, tl (shape Xtr)),
                           objective = ''mean_squared_error'', budget = 10, overwrite = True,
                           tuner_project_name = project_name self,
                           tuner_directory = directory self,
                           tuner_options = tuner_kwargs self\<rparr>
                 in and_then (tuner_search env t Xtr ytr) (\<lambda>best_hps.
                    and_then (hypermodel_build env t best_hps) (\<lambda>model.
                    and_then
                      (fit_with_checkpoint env model Xtr ytr (max_epochs self)
                         (batch_size self) Xte yte)
                      (\<lambda>m. Inr (self\<lparr>cnn_model := Some m, cnn_is_fitted := Some True\<rparr>)))))"
    by (simp add: tn_def Let_def)
qed

theorem fit_selects_tuner_witness:
  "CNN_init (HAS_KERAS trivial_framework)
     ((default_args (PyInt 2) (PyInt 1))\<lparr>arg_tuner := PyStr ''grid''\<rparr>)
     = Inr (cnn_2_1\<lparr>tuner := PyStr ''grid''\<rparr>) \<and>
   fit trivial_framework (cnn_2_1\<lparr>tuner := PyStr ''grid''\<rparr>)
     \<lparr>shape = [2, 2], items = [Some 1, Some 2, Some 3, Some 4]\<rparr> [Some 1, Some 2]
     = Inl (Raise ValueError ''tuner parameter expects hyperband, bayesian, or random'') \<and>
   fit trivial_framework (cnn_2_1\<lparr>tuner := PyStr ''hyperband''\<rparr>)
     \<lparr>shape = [2, 2], items = [Some 1, Some 2, Some 3, Some 4]\<rparr> [Some 1, Some 2]
     = Inr (cnn_2_1\<lparr>tuner := PyStr ''hyperband'', cnn_model := Some (),
                      cnn_is_fitted := Some True\<rparr>)"
proof -
  let ?g = "cnn_2_1\<lparr>tuner := PyStr ''grid''\<rparr>"
  let ?h = "cnn_2_1\<lparr>tuner := PyStr ''hyperband''\<rparr>"
  let ?X = "\<lparr>shape = [2, 2], items = [Some 1, Some 2, Some 3, Some (4::real)]\<rparr>"
  let ?T = "\<lparr>shape = [2, 2, 1], items = [Some 1, Some 2, Some 3, Some (4::real)]\<rparr>"
  let ?y = "[Some 1, Some (2::real)]"
  have ig: "CNN_init (HAS_KERAS trivial_framework)
     ((default_args (PyInt 2) (PyInt 1))\<lparr>arg_tuner := PyStr ''grid''\<rparr>) = Inr ?g"
    by (simp add: CNN_init_def and_then_def check_keras_def default_args_def as_int_def
        as_str_def as_float_def cnn_2_1_def trivial_framework_def)
  have ih: "CNN_init (HAS_KERAS trivial_framework)
     ((default_args (PyInt 2) (PyInt 1))\<lparr>arg_tuner := PyStr ''hyperband''\<rparr>) = Inr ?h"
    by (simp add: CNN_init_def and_then_def check_keras_def default_args_def as_int_def
        as_str_def as_float_def cnn_2_1_def trivial_framework_def)
  have pg: "preprocess ?g ?X (Some ?y) = Inr (?T, Some ?y)" by code_simp
  have ph: "preprocess ?h ?X (Some ?y) = Inr (?T, Some ?y)" by code_simp
  have sg: "train_test_split trivial_framework ?T ?y (test_size ?g) (random_state ?g)
           = Inr (?T, ?T, ?y, ?y)"
    by (simp add: trivial_framework_def)
  have sh: "train_test_split trivial_framework ?T ?y (test_size ?h) (random_state ?h)
           = Inr (?T, ?T, ?y, ?y)"
    by (simp add: trivial_framework_def)
  have kg: "\<not> repeated_keyword
               [''class_type'', ''input_shape'', ''layers'', ''max_epochs'', ''X_test'',
                ''y_test'', ''batch_size'', ''directory'', ''project_name'']
               (tuner_kwargs ?g)"
    and kh: "\<not> repeated_keyword
               [''class_type'', ''input_shape'', ''layers'', ''max_epochs'', ''X_test'',
                ''y_test'', ''batch_size'', ''directory'', ''project_name'']
               (tuner_kwargs ?h)"
    by (simp_all add: repeated_keyword_def cnn_2_1_def)
  note tg = fit_selects_tuner [OF ig, of ?X ?y, THEN conjunct2, THEN conjunct2,
      THEN conjunct2, rule_format,
      OF conjI [OF pg conjI [OF sg kg]], THEN conjunct2, THEN conjunct1, rule_format,
      of "''grid''"]
  have g: "fit trivial_framework ?g ?X ?y =
           Inl (Raise ValueError ''tuner parameter expects hyperband, bayesian, or random'')"
    by (rule tg) simp
  note th = fit_selects_tuner [OF ih, of ?X ?y, THEN conjunct2, THEN conjunct2,
      THEN conjunct2, rule_format,
      OF conjI [OF ph conjI [OF sh kh]], THEN conjunct2, THEN conjunct2, rule_format,
      of "''hyperband''" Hyperband]
  have "fit trivial_framework ?h ?X ?y =
     Inr (cnn_2_1\<lparr>tuner := PyStr ''hyperband'', cnn_model := Some (),
                      cnn_is_fitted := Some True\<rparr>)"
    by (subst th) (simp_all add: repeated_keyword_def cnn_2_1_def trivial_framework_def
        and_then_def Let_def)
  with ig g show ?thesis by (simp add: trivial_framework_def)
qed

end
